theory Spec2Isabelle
  imports Main "HOL-Library.AList"
begin

section \<open>The line codec (protocol/protocol.go)\<close>

text \<open>
  A Go string is modelled by \<^typ>\<open>string\<close>, the list of its UTF-8 bytes. The loops of the
  codec range over runes, but they compare each rune only with ASCII characters and copy every
  other rune unchanged; no byte of a multi-byte UTF-8 sequence is ASCII, so on well-formed
  text the loop over bytes writes the same bytes as the loop over runes. On a byte that is
  not part of well-formed UTF-8 the source differs: its loops read the replacement rune
  U+FFFD and write that instead of the byte. The definitions below describe the source on
  well-formed UTF-8 text only.
\<close>

definition BSLASH :: char where "BSLASH = CHR 0x5C"
definition LF :: char where "LF = CHR 0x0A"
definition CR :: char where "CR = CHR 0x0D"
definition PIPE :: char where "PIPE = CHR ''|''"
definition COMMA :: char where "COMMA = CHR '',''"

datatype error = ErrInvalidPacket

record Packet =
  Type :: string
  Destination :: string
  Content :: string
  Fields :: "string list"

text \<open>\<open>strings.TrimSuffix\<close> and \<open>strings.Join\<close> of the Go library.\<close>

definition TrimSuffix :: "string \<Rightarrow> string \<Rightarrow> string" where
  "TrimSuffix s suf =
     (if length suf \<le> length s \<and> drop (length s - length suf) s = suf
      then take (length s - length suf) s else s)"

fun Join :: "string list \<Rightarrow> string \<Rightarrow> string" where
  "Join [] sep = []"
| "Join [p] sep = p"
| "Join (p # q # ps) sep = p @ sep @ Join (q # ps) sep"

text \<open>
  \<open>splitUnescaped\<close>: the loop state is the remaining input, the parts appended so far, the
  builder \<open>current\<close> and the flag \<open>escape\<close>. The backslash test comes before the delimiter
  test, as in the source.
\<close>

fun splitUnescaped_loop :: "char \<Rightarrow> string \<Rightarrow> string list \<Rightarrow> string \<Rightarrow> bool \<Rightarrow> string list" where
  "splitUnescaped_loop delimiter [] parts current escape = parts @ [current]"
| "splitUnescaped_loop delimiter (r # rest) parts current escape =
     (if escape then splitUnescaped_loop delimiter rest parts (current @ [r]) False
      else if r = BSLASH then splitUnescaped_loop delimiter rest parts (current @ [r]) True
      else if r = delimiter then splitUnescaped_loop delimiter rest (parts @ [current]) [] False
      else splitUnescaped_loop delimiter rest parts (current @ [r]) False)"

definition splitUnescaped :: "string \<Rightarrow> char \<Rightarrow> string list" where
  "splitUnescaped s delimiter = splitUnescaped_loop delimiter s [] [] False"

text \<open>
  \<open>unescape\<close>: the test \<open>i < len(s)-1\<close> at a backslash says that the backslash is not the
  last byte, that is, that the rest of the input is not empty.
\<close>

definition unescape_rune :: "char \<Rightarrow> string" where
  "unescape_rune r =
     (if r = PIPE then [PIPE]
      else if r = COMMA then [COMMA]
      else if r = BSLASH then [BSLASH]
      else if r = CHR ''n'' then [LF]
      else if r = CHR ''r'' then [CR]
      else [BSLASH, r])"

fun unescape_loop :: "string \<Rightarrow> string \<Rightarrow> bool \<Rightarrow> string" where
  "unescape_loop [] result escape = (if escape then result @ [BSLASH] else result)"
| "unescape_loop (r # rest) result escape =
     (if escape then unescape_loop rest (result @ unescape_rune r) False
      else if r = BSLASH \<and> rest \<noteq> [] then unescape_loop rest result True
      else unescape_loop rest (result @ [r]) False)"

definition unescape :: "string \<Rightarrow> string" where
  "unescape s = unescape_loop s [] False"

definition Escape_rune :: "char \<Rightarrow> string" where
  "Escape_rune r =
     (if r = PIPE then [BSLASH, PIPE]
      else if r = COMMA then [BSLASH, COMMA]
      else if r = BSLASH then [BSLASH, BSLASH]
      else if r = LF then [BSLASH, CHR ''n'']
      else if r = CR then [BSLASH, CHR ''r'']
      else [r])"

fun Escape :: "string \<Rightarrow> string" where
  "Escape [] = []"
| "Escape (r # rest) = Escape_rune r @ Escape rest"

definition ParsePacket :: "string \<Rightarrow> error + Packet" where
  "ParsePacket line0 =
     (let line = TrimSuffix (TrimSuffix line0 [LF]) [CR];
          parts = splitUnescaped line PIPE
      in if length parts < 1 then Inl ErrInvalidPacket
         else if length parts = 2 then
           (let content = unescape (parts ! 1)
            in Inr \<lparr>Type = unescape (parts ! 0), Destination = [], Content = content,
                    Fields = splitUnescaped content PIPE\<rparr>)
         else if length parts \<ge> 3 then
           (let content = unescape (parts ! 2)
            in Inr \<lparr>Type = unescape (parts ! 0), Destination = unescape (parts ! 1),
                    Content = content, Fields = splitUnescaped content PIPE\<rparr>)
         else Inr \<lparr>Type = unescape (parts ! 0), Destination = [], Content = [], Fields = []\<rparr>)"

definition FormatPacket :: "string \<Rightarrow> string \<Rightarrow> string \<Rightarrow> string" where
  "FormatPacket pktType destination content =
     Join ([Escape pktType]
           @ (if destination \<noteq> [] then [Escape destination] else [])
           @ (if content \<noteq> [] then [Escape content] else [])) [PIPE] @ [LF]"

text \<open>
  The line that \<open>sendPacket\<close> (server/server.go) writes: the type and every field escaped on
  its own, joined by the pipe, ended by a line feed.
\<close>

definition packet_line :: "string \<Rightarrow> string list \<Rightarrow> string" where
  "packet_line pktType flds = Join (map Escape (pktType # flds)) [PIPE] @ [LF]"

section \<open>The repository (db/db.go)\<close>

text \<open>
  Instants are whole seconds since the Unix epoch. The tables store them as RFC 3339 text in
  UTC, which has second precision and a fixed width, so the text comparisons of the SQL
  statements order and identify instants as the integers do. A row is a record named by the
  columns of its table, a table is the list of its rows in insertion order, and a column that
  may be NULL holds an option.
\<close>

type_synonym instant = int

record user_row =
  login :: string
  password :: string
  last_online :: "instant option"
  last_offline :: "instant option"

record contact_row =
  owner :: string
  contact :: string
  nick :: string

record message_row =
  sender :: string
  recipient :: string
  msg_text :: string
  timestamp :: instant
  status :: string

text \<open>
  \<open>failing\<close> stands for the driver: when it is set every statement returns a driver error,
  which is how the \<open>err != nil\<close> returns of the source that no table content decides are
  reached.
\<close>

record DB =
  users :: "user_row list"
  contacts :: "contact_row list"
  messages :: "message_row list"
  failing :: bool

text \<open>
  The error values that can be compared by identity: \<open>sql.ErrNoRows\<close> of the Go library,
  \<open>db.ErrNoRows\<close> declared by the package (\<open>errors.New("no rows found")\<close>, a value of its
  own), and any other error of the driver.
\<close>

datatype db_error = SqlErrNoRows | DbErrNoRows | DriverError

definition UpdateLastOnline :: "DB \<Rightarrow> string \<Rightarrow> instant \<Rightarrow> db_error + DB" where
  "UpdateLastOnline database l t =
     (if failing database then Inl DriverError
      else Inr (database\<lparr>users :=
             map (\<lambda>u. if login u = l then u\<lparr>last_online := Some t\<rparr> else u) (users database)\<rparr>))"

definition UpdateLastOffline :: "DB \<Rightarrow> string \<Rightarrow> instant \<Rightarrow> db_error + DB" where
  "UpdateLastOffline database l t =
     (if failing database then Inl DriverError
      else Inr (database\<lparr>users :=
             map (\<lambda>u. if login u = l then u\<lparr>last_offline := Some t\<rparr> else u) (users database)\<rparr>))"

text \<open>
  \<open>AuthenticateUser\<close>; \<open>bcrypt.CompareHashAndPassword\<close> is a parameter, true when the
  password matches the stored hash.
\<close>

definition AuthenticateUser ::
  "(string \<Rightarrow> string \<Rightarrow> bool) \<Rightarrow> DB \<Rightarrow> string \<Rightarrow> string \<Rightarrow> db_error + bool" where
  "AuthenticateUser compareHash database l pw =
     (if failing database then Inl DriverError
      else case find (\<lambda>u. login u = l) (users database) of
             None \<Rightarrow> Inr False
           | Some u \<Rightarrow> Inr (compareHash (password u) pw))"

definition UserExists :: "DB \<Rightarrow> string \<Rightarrow> db_error + bool" where
  "UserExists database l =
     (if failing database then Inl DriverError
      else Inr (length (filter (\<lambda>u. login u = l) (users database)) > 0))"

definition GetContacts :: "DB \<Rightarrow> string \<Rightarrow> db_error + contact_row list" where
  "GetContacts database own =
     (if failing database then Inl DriverError
      else Inr (filter (\<lambda>c. owner c = own) (contacts database)))"

definition UpdateContactNick :: "DB \<Rightarrow> string \<Rightarrow> string \<Rightarrow> string \<Rightarrow> db_error + DB" where
  "UpdateContactNick database own con nk =
     (if failing database then Inl DriverError
      else let rowsAffected = length (filter (\<lambda>c. owner c = own \<and> contact c = con) (contacts database))
           in if rowsAffected = 0 then Inl SqlErrNoRows
              else Inr (database\<lparr>contacts :=
                     map (\<lambda>c. if owner c = own \<and> contact c = con then c\<lparr>nick := nk\<rparr> else c)
                         (contacts database)\<rparr>))"

definition DeleteContact :: "DB \<Rightarrow> string \<Rightarrow> string \<Rightarrow> db_error + DB" where
  "DeleteContact database own con =
     (if failing database then Inl DriverError
      else let rowsAffected = length (filter (\<lambda>c. owner c = own \<and> contact c = con) (contacts database))
           in if rowsAffected = 0 then Inl SqlErrNoRows
              else Inr (database\<lparr>contacts :=
                     filter (\<lambda>c. \<not> (owner c = own \<and> contact c = con)) (contacts database)\<rparr>))"

definition SaveMessage :: "DB \<Rightarrow> string \<Rightarrow> string \<Rightarrow> string \<Rightarrow> instant \<Rightarrow> db_error + DB" where
  "SaveMessage database sndr rcp body t =
     (if failing database then Inl DriverError
      else Inr (database\<lparr>messages := messages database @
             [\<lparr>sender = sndr, recipient = rcp, msg_text = body, timestamp = t, status = ''sent''\<rparr>]\<rparr>))"

definition MarkMessageAcknowledged :: "DB \<Rightarrow> string \<Rightarrow> string \<Rightarrow> instant \<Rightarrow> db_error + DB" where
  "MarkMessageAcknowledged database sndr rcp t =
     (if failing database then Inl DriverError
      else Inr (database\<lparr>messages :=
             map (\<lambda>m. if sender m = sndr \<and> recipient m = rcp \<and> timestamp m = t
                      then m\<lparr>status := ''ackn''\<rparr> else m) (messages database)\<rparr>))"

text \<open>
  \<open>GetOfflineMessageCounts\<close>. The defaults are the instants of \<open>1970-01-01T00:00:00Z\<close> and
  \<open>2099-12-31T23:59:59Z\<close>. \<open>GROUP BY sender\<close> yields one row for each sender that has a
  selected message, with the number of its selected messages; the loop stores each row in the
  result map.
\<close>

definition offline_window :: "user_row \<Rightarrow> instant \<times> instant" where
  "offline_window u =
     ((case last_offline u of None \<Rightarrow> 0 | Some t \<Rightarrow> t),
      (case last_online u of None \<Rightarrow> 4102444799 | Some t \<Rightarrow> t))"

definition offline_rows :: "DB \<Rightarrow> string \<Rightarrow> instant \<Rightarrow> instant \<Rightarrow> message_row list" where
  "offline_rows database rcp lastOffline lastOnline =
     filter (\<lambda>m. recipient m = rcp \<and> timestamp m > lastOffline \<and> timestamp m \<le> lastOnline)
            (messages database)"

definition group_by_sender :: "message_row list \<Rightarrow> (string \<times> nat) list" where
  "group_by_sender rows =
     map (\<lambda>s. (s, length (filter (\<lambda>m. sender m = s) rows))) (remdups (map sender rows))"

definition GetOfflineMessageCounts :: "DB \<Rightarrow> string \<Rightarrow> db_error + (string \<rightharpoonup> nat)" where
  "GetOfflineMessageCounts database rcp =
     (if failing database then Inl DriverError
      else case find (\<lambda>u. login u = rcp) (users database) of
             None \<Rightarrow> Inl SqlErrNoRows
           | Some u \<Rightarrow>
               (let (lastOffline, lastOnline) = offline_window u;
                    rows = group_by_sender (offline_rows database rcp lastOffline lastOnline)
                in Inr (fold (\<lambda>(s, n) counts. counts(s \<mapsto> n)) rows Map.empty)))"

section \<open>Sessions, sockets and sending (server/server.go)\<close>

text \<open>
  A \<open>net.Conn\<close> is a socket with the lines its peer has been sent. A write on a closed
  socket fails and delivers nothing; the server only logs the failure. A write on an open
  socket delivers its line: write deadlines are not modelled. Sockets and session
  objects live in stores indexed by numbers, so that the registry and a handler can hold the
  same session, as the pointers of the source do. Instants and durations are in seconds.
\<close>

record ServerConfig =
  Port :: int
  ReadTimeout :: int
  WriteTimeout :: int
  FilePortRangeStart :: int
  FilePortRangeEnd :: int

record Session =
  Login :: string
  Conn :: nat
  LastPing :: instant

record Socket =
  closed :: bool
  outbox :: "string list"

text \<open>
  The trace lists, in the order they happen, every call of \<open>Write\<close> on a socket (whether
  it succeeds or not) and every message row that \<open>SaveMessage\<close> has stored.
\<close>

datatype event = ConnWrite nat string | MessageSaved message_row

record Server =
  db :: DB
  config :: ServerConfig
  sessions :: "string \<rightharpoonup> nat"
  heap :: "nat \<Rightarrow> Session"
  conns :: "nat \<Rightarrow> Socket"
  trace :: "event list"

definition Write :: "Server \<Rightarrow> nat \<Rightarrow> string \<Rightarrow> Server" where
  "Write s conn data =
     s\<lparr>conns := (conns s)(conn :=
          (if closed (conns s conn) then conns s conn
           else (conns s conn)\<lparr>outbox := outbox (conns s conn) @ [data]\<rparr>)),
       trace := trace s @ [ConnWrite conn data]\<rparr>"

definition Close :: "Server \<Rightarrow> nat \<Rightarrow> Server" where
  "Close s conn = s\<lparr>conns := (conns s)(conn := (conns s conn)\<lparr>closed := True\<rparr>)\<rparr>"

definition sendPacket :: "Server \<Rightarrow> nat \<Rightarrow> string \<Rightarrow> string list \<Rightarrow> Server" where
  "sendPacket s conn pktType flds = Write s conn (packet_line pktType flds)"

definition sendPacketRaw :: "Server \<Rightarrow> nat \<Rightarrow> string \<Rightarrow> string \<Rightarrow> Server" where
  "sendPacketRaw s conn pktType rawContent =
     Write s conn (Escape pktType @ [PIPE] @ rawContent @ [LF])"

definition sendOK :: "Server \<Rightarrow> nat \<Rightarrow> string \<Rightarrow> Server" where
  "sendOK s conn operation =
     (if operation \<noteq> [] then sendPacket s conn ''ok'' [operation] else sendPacket s conn ''ok'' [])"

definition sendError :: "Server \<Rightarrow> nat \<Rightarrow> string \<Rightarrow> string \<Rightarrow> Server" where
  "sendError s conn operation description =
     (if operation \<noteq> [] then sendPacket s conn ''fail'' [operation, description]
      else sendPacket s conn ''fail'' [description])"

definition sendBye :: "Server \<Rightarrow> nat \<Rightarrow> string \<Rightarrow> string \<Rightarrow> Server" where
  "sendBye s conn reason details =
     (if details \<noteq> [] then sendPacket s conn ''bye'' [reason, details]
      else if reason \<noteq> [] then sendPacket s conn ''bye'' [reason]
      else sendPacket s conn ''bye'' [])"

definition addSession :: "Server \<Rightarrow> string \<Rightarrow> nat \<Rightarrow> Server" where
  "addSession s l session = s\<lparr>sessions := (sessions s)(l \<mapsto> session)\<rparr>"

definition removeSession :: "Server \<Rightarrow> string \<Rightarrow> Server" where
  "removeSession s l = s\<lparr>sessions := (sessions s)(l := None)\<rparr>"

definition getSession :: "Server \<Rightarrow> string \<Rightarrow> Session option" where
  "getSession s l = (case sessions s l of None \<Rightarrow> None | Some a \<Rightarrow> Some (heap s a))"

definition getSessionConn :: "Server \<Rightarrow> string \<Rightarrow> nat option" where
  "getSessionConn s l = (case getSession s l of None \<Rightarrow> None | Some session \<Rightarrow> Some (Conn session))"

text \<open>
  The body of the read loop after a line has been read and trimmed (lines 164 to 171 of
  \<open>handleConnection\<close>); the dispatcher \<open>handlePacket\<close> is a parameter.
\<close>

definition handleLine ::
  "(Server \<Rightarrow> nat \<Rightarrow> Packet \<Rightarrow> nat \<Rightarrow> Server) \<Rightarrow> Server \<Rightarrow> nat \<Rightarrow> nat \<Rightarrow> string \<Rightarrow> Server" where
  "handleLine handlePacket s session conn line =
     (case ParsePacket (line @ [LF]) of
        Inl err \<Rightarrow> sendError s conn [] ''Invalid packet format''
      | Inr pkt \<Rightarrow> handlePacket s session pkt conn)"

section \<open>Command handlers (the handlers file of package server)\<close>

text \<open>
  \<open>time.Now\<close> is the parameter \<open>now\<close>; \<open>Format\<close> with the layout
  \<open>2006-01-02T15:04:05Z\<close> (which is what \<open>time.RFC3339\<close> prints for a UTC instant) is the
  parameter \<open>fmt\<close>, and \<open>time.Parse\<close> with that layout is the parameter \<open>parseTime\<close>.
\<close>

text \<open>
  The two arguments of \<open>auth\<close> and \<open>ack\<close>: destination and content, or else the first two
  fields of the content; \<open>None\<close> when there are fewer than two fields.
\<close>

definition two_args :: "Packet \<Rightarrow> (string \<times> string) option" where
  "two_args pkt =
     (if Destination pkt \<noteq> [] then Some (Destination pkt, Content pkt)
      else if length (Fields pkt) < 2 then None
      else Some (Fields pkt ! 0, Fields pkt ! 1))"

fun notify_loop :: "string \<Rightarrow> string \<Rightarrow> string \<Rightarrow> Server \<Rightarrow> contact_row list \<Rightarrow> Server" where
  "notify_loop pktType l ts s [] = s"
| "notify_loop pktType l ts s (c # cs) =
     (case getSessionConn s (contact c) of
        Some conn \<Rightarrow> notify_loop pktType l ts (sendPacket s conn pktType [l, ts]) cs
      | None \<Rightarrow> notify_loop pktType l ts s cs)"

definition notifyContactsOnline :: "(instant \<Rightarrow> string) \<Rightarrow> Server \<Rightarrow> string \<Rightarrow> instant \<Rightarrow> Server" where
  "notifyContactsOnline fmt s l t =
     (case GetContacts (db s) l of
        Inl err \<Rightarrow> s
      | Inr cs \<Rightarrow> notify_loop ''on'' l (fmt t) s cs)"

definition notifyContactsOffline :: "(instant \<Rightarrow> string) \<Rightarrow> Server \<Rightarrow> string \<Rightarrow> instant \<Rightarrow> Server" where
  "notifyContactsOffline fmt s l t =
     (case GetContacts (db s) l of
        Inl err \<Rightarrow> s
      | Inr cs \<Rightarrow> notify_loop ''off'' l (fmt t) s cs)"

definition handleAuth ::
  "(string \<Rightarrow> string \<Rightarrow> bool) \<Rightarrow> (instant \<Rightarrow> string) \<Rightarrow> instant \<Rightarrow> Server \<Rightarrow> nat \<Rightarrow> Packet \<Rightarrow> nat \<Rightarrow> Server" where
  "handleAuth compareHash fmt now s session pkt conn =
     (case two_args pkt of
        None \<Rightarrow> sendError s conn ''auth'' ''Invalid credentials''
      | Some (l, pw) \<Rightarrow>
          if l = [] \<or> pw = [] then sendError s conn ''auth'' ''Invalid credentials''
          else if Login (heap s session) \<noteq> [] then sendOK s conn ''auth''
          else (case AuthenticateUser compareHash (db s) l pw of
                  Inl err \<Rightarrow> sendError s conn ''auth'' ''Internal error''
                | Inr valid \<Rightarrow>
                    if \<not> valid then sendError s conn ''auth'' ''Invalid credentials''
                    else
                      (let s1 = s\<lparr>heap := (heap s)(session := (heap s session)\<lparr>Login := l\<rparr>)\<rparr>;
                           s2 = addSession s1 l session;
                           s3 = sendOK s2 conn ''auth'';
                           s4 = (case UpdateLastOnline (db s3) l now of
                                   Inl err \<Rightarrow> s3
                                 | Inr db' \<Rightarrow> s3\<lparr>db := db'\<rparr>)
                       in notifyContactsOnline fmt s4 l now)))"

definition handleMessage ::
  "(instant \<Rightarrow> string) \<Rightarrow> instant \<Rightarrow> Server \<Rightarrow> nat \<Rightarrow> Packet \<Rightarrow> nat \<Rightarrow> Server" where
  "handleMessage fmt now s session pkt conn =
     (if Login (heap s session) = [] then sendError s conn ''msg'' ''Not authenticated''
      else if Destination pkt = [] then sendError s conn ''msg'' ''Recipient required''
      else if Content pkt = [] then sendError s conn ''msg'' ''Message text required''
      else (case UserExists (db s) (Destination pkt) of
              Inl err \<Rightarrow> sendError s conn ''msg'' ''Internal error''
            | Inr exists \<Rightarrow>
                if \<not> exists then sendError s conn ''msg'' ''Recipient not found''
                else (case SaveMessage (db s) (Login (heap s session)) (Destination pkt) (Content pkt) now of
                        Inl err \<Rightarrow> sendError s conn ''msg'' ''Internal error''
                      | Inr db' \<Rightarrow>
                          (let s1 = s\<lparr>db := db',
                                       trace := trace s @
                                         [MessageSaved \<lparr>sender = Login (heap s session),
                                            recipient = Destination pkt, msg_text = Content pkt,
                                            timestamp = now, status = ''sent''\<rparr>]\<rparr>;
                               s2 = (case getSessionConn s1 (Destination pkt) of
                                       Some recipientConn \<Rightarrow>
                                         Write s1 recipientConn
                                           (''msg|'' @ Escape (Login (heap s session)) @ ''|''
                                            @ Escape (Content pkt) @ ''|'' @ fmt now @ [LF])
                                     | None \<Rightarrow> s1)
                           in sendOK s2 conn ''msg''))))"

definition handleAck ::
  "(string \<Rightarrow> instant option) \<Rightarrow> Server \<Rightarrow> nat \<Rightarrow> Packet \<Rightarrow> nat \<Rightarrow> Server" where
  "handleAck parseTime s session pkt conn =
     (if Login (heap s session) = [] then sendError s conn ''ack'' ''Not authenticated''
      else (case two_args pkt of
              None \<Rightarrow> sendError s conn ''ack'' ''Invalid ack format''
            | Some (sndr, timestampStr) \<Rightarrow>
                if sndr = [] \<or> timestampStr = [] then sendError s conn ''ack'' ''Invalid ack format''
                else (case parseTime timestampStr of
                        None \<Rightarrow> sendError s conn ''ack'' ''Invalid timestamp''
                      | Some t \<Rightarrow>
                          (case MarkMessageAcknowledged (db s) sndr (Login (heap s session)) t of
                             Inl err \<Rightarrow> sendError s conn ''ack'' ''Internal error''
                           | Inr db' \<Rightarrow>
                               (let s1 = sendOK (s\<lparr>db := db'\<rparr>) conn ''ack''
                                in case getSessionConn s1 sndr of
                                     Some senderConn \<Rightarrow>
                                       sendPacket s1 senderConn ''ack'' [Login (heap s session), timestampStr]
                                   | None \<Rightarrow> s1)))))"

definition handleRenameContact :: "Server \<Rightarrow> nat \<Rightarrow> Packet \<Rightarrow> nat \<Rightarrow> Server" where
  "handleRenameContact s session pkt conn =
     (if Login (heap s session) = [] then sendError s conn ''ren'' ''Not authenticated''
      else (case (if Destination pkt \<noteq> [] then
                    Some (Destination pkt,
                          if length (Fields pkt) > 0 then Fields pkt ! 0 else Content pkt)
                  else if length (Fields pkt) < 2 then None
                  else Some (Fields pkt ! 0, Fields pkt ! 1)) of
              None \<Rightarrow> sendError s conn ''ren'' ''Invalid data''
            | Some (con, nk) \<Rightarrow>
                if con = [] \<or> nk = [] then sendError s conn ''ren'' ''Invalid data''
                else (case UpdateContactNick (db s) (Login (heap s session)) con nk of
                        Inl err \<Rightarrow>
                          if err = DbErrNoRows then sendError s conn ''ren'' ''Contact not found''
                          else sendError s conn ''ren'' ''Internal error''
                      | Inr db' \<Rightarrow> sendOK (s\<lparr>db := db'\<rparr>) conn ''ren'')))"

definition handleDeleteContact :: "Server \<Rightarrow> nat \<Rightarrow> Packet \<Rightarrow> nat \<Rightarrow> Server" where
  "handleDeleteContact s session pkt conn =
     (if Login (heap s session) = [] then sendError s conn ''del'' ''Not authenticated''
      else (let con = (if Destination pkt \<noteq> [] then Destination pkt
                       else if length (Fields pkt) > 0 then Fields pkt ! 0
                       else Content pkt)
            in if con = [] then sendError s conn ''del'' ''Invalid data''
               else (case DeleteContact (db s) (Login (heap s session)) con of
                       Inl err \<Rightarrow>
                         if err = DbErrNoRows then sendError s conn ''del'' ''Contact not found''
                         else sendError s conn ''del'' ''Internal error''
                     | Inr db' \<Rightarrow> sendOK (s\<lparr>db := db'\<rparr>) conn ''del'')))"

text \<open>\<open>strconv.Itoa\<close> on a count, which is never negative.\<close>

fun Itoa :: "nat \<Rightarrow> string" where
  "Itoa n = (if n < 10 then [''0123456789'' ! n]
             else Itoa (n div 10) @ [''0123456789'' ! (n mod 10)])"

declare Itoa.simps [simp del]

text \<open>
  \<open>handleOfflineMessages\<close>. The \<open>range\<close> loop visits every key of the map once, in an order
  that Go leaves open; \<open>range_order\<close> lists the keys in the order of the visit.
\<close>

definition handleOfflineMessages :: "string list \<Rightarrow> Server \<Rightarrow> nat \<Rightarrow> nat \<Rightarrow> Server" where
  "handleOfflineMessages range_order s session conn =
     (if Login (heap s session) = [] then sendError s conn ''offmsg'' ''Not authenticated''
      else (case GetOfflineMessageCounts (db s) (Login (heap s session)) of
              Inl err \<Rightarrow> sendError s conn ''offmsg'' ''Internal error''
            | Inr counts \<Rightarrow>
                (let items = concat (map (\<lambda>sndr. case counts sndr of
                                                    None \<Rightarrow> []
                                                  | Some count \<Rightarrow> [Escape sndr @ ''|'' @ Itoa count])
                                         range_order)
                 in sendPacketRaw s conn ''offmsg'' (Join items '',''))))"

section \<open>The liveness ticker and the end of a connection (handleConnection)\<close>

text \<open>
  The variables of \<open>handleConnection\<close> that its deferred function and the ticker goroutine
  share.
\<close>

record ConnLocals =
  shouldSendBye :: bool
  byeReason :: string
  byeDetails :: string

text \<open>One tick of the ticker goroutine; the last component says that the goroutine returned.\<close>

definition ticker_tick ::
  "instant \<Rightarrow> Server \<Rightarrow> ConnLocals \<Rightarrow> nat \<Rightarrow> nat \<Rightarrow> Server \<times> ConnLocals \<times> bool" where
  "ticker_tick now s loc session conn =
     (if Login (heap s session) \<noteq> [] then
        (case sessions s (Login (heap s session)) of
           Some a \<Rightarrow>
             if now - LastPing (heap s a) > ReadTimeout (config s)
             then (Close s conn,
                   loc\<lparr>shouldSendBye := True, byeReason := ''timeout'', byeDetails := []\<rparr>, True)
             else (s, loc, False)
         | None \<Rightarrow> (s, loc, False))
      else (s, loc, False))"

text \<open>A read that ends at its deadline: the keep-alive of the read loop.\<close>

definition read_deadline :: "instant \<Rightarrow> Server \<Rightarrow> nat \<Rightarrow> Server" where
  "read_deadline now s session =
     s\<lparr>heap := (heap s)(session := (heap s session)\<lparr>LastPing := now\<rparr>)\<rparr>"

text \<open>
  What \<open>handleConnection\<close> does once the read loop has left on a closed socket or the end of
  the input: the removal of the session, then the deferred function.
\<close>

definition handleConnection_exit ::
  "(instant \<Rightarrow> string) \<Rightarrow> instant \<Rightarrow> Server \<Rightarrow> ConnLocals \<Rightarrow> nat \<Rightarrow> nat \<Rightarrow> Server" where
  "handleConnection_exit fmt now s loc session conn =
     (let l = Login (heap s session);
          s1 = (if l \<noteq> [] then
                  (let s2 = removeSession s l;
                       s3 = (case UpdateLastOffline (db s2) l now of
                               Inl err \<Rightarrow> s2
                             | Inr db' \<Rightarrow> s2\<lparr>db := db'\<rparr>)
                   in notifyContactsOffline fmt s3 l now)
                else s);
          s4 = (if shouldSendBye loc then sendBye s1 conn (byeReason loc) (byeDetails loc) else s1)
      in Close s4 conn)"

section \<open>The file-transfer manager (server/filetransfer.go)\<close>

text \<open>
  The session map is an association list with one entry for each key. \<open>usedPorts\<close>, a Go map
  whose stored values are all \<open>true\<close>, is the set of its keys. The random session ID is a
  parameter of \<open>CreateSession\<close>. A data connection is a socket held in the session.
\<close>

datatype ft_error = ErrSessionNotFound | ErrSessionNotPending | ErrNoAvailablePorts

record FileSession =
  ID :: string
  Sender :: string
  Recipient :: string
  Filename :: string
  Size :: int
  Hash :: string
  UploadPort :: int
  DownloadPort :: int
  UploadConn :: "Socket option"
  DownloadConn :: "Socket option"
  Status :: string
  CreatedAt :: instant
  ExpiresAt :: instant

record FileTransferManager =
  ftm_sessions :: "(string \<times> FileSession) list"
  portRangeStart :: int
  portRangeEnd :: int
  usedPorts :: "int set"

definition NewFileTransferManager :: "int \<Rightarrow> int \<Rightarrow> FileTransferManager" where
  "NewFileTransferManager portStart portEnd =
     \<lparr>ftm_sessions = [], portRangeStart = portStart, portRangeEnd = portEnd, usedPorts = {}\<rparr>"

definition CreateSession ::
  "FileTransferManager \<Rightarrow> string \<Rightarrow> string \<Rightarrow> string \<Rightarrow> string \<Rightarrow> int \<Rightarrow> string \<Rightarrow> instant
     \<Rightarrow> FileTransferManager \<times> FileSession" where
  "CreateSession ftm sessionID sndr rcp filename sz hash now =
     (let session = \<lparr>ID = sessionID, Sender = sndr, Recipient = rcp, Filename = filename,
                      Size = sz, Hash = hash, UploadPort = 0, DownloadPort = 0,
                      UploadConn = None, DownloadConn = None, Status = ''pending'',
                      CreatedAt = now, ExpiresAt = now + 5 * 60\<rparr>
      in (ftm\<lparr>ftm_sessions := AList.update sessionID session (ftm_sessions ftm)\<rparr>, session))"

text \<open>
  The loop of \<open>allocatePort\<close>, from the port it has reached to the end of the range. Ports
  are unbounded integers here; the source counts in a 64-bit \<open>int\<close>, so the two agree as long
  as the end of the range is below the largest \<open>int\<close>, where \<open>port++\<close> does not wrap.
\<close>

function allocatePort_scan :: "int set \<Rightarrow> int \<Rightarrow> int \<Rightarrow> int option" where
  "allocatePort_scan used port portEnd =
     (if port \<le> portEnd
      then (if port \<notin> used then Some port else allocatePort_scan used (port + 1) portEnd)
      else None)"
  by pat_completeness auto
termination
  by (relation "measure (\<lambda>(used, port, portEnd). nat (portEnd + 1 - port))") auto

declare allocatePort_scan.simps [simp del]

definition allocatePort :: "FileTransferManager \<Rightarrow> FileTransferManager \<times> (ft_error + int)" where
  "allocatePort ftm =
     (case allocatePort_scan (usedPorts ftm) (portRangeStart ftm) (portRangeEnd ftm) of
        Some port \<Rightarrow> (ftm\<lparr>usedPorts := insert port (usedPorts ftm)\<rparr>, Inr port)
      | None \<Rightarrow> (ftm, Inl ErrNoAvailablePorts))"

definition releasePort :: "FileTransferManager \<Rightarrow> int \<Rightarrow> FileTransferManager" where
  "releasePort ftm port = ftm\<lparr>usedPorts := usedPorts ftm - {port}\<rparr>"

definition AcceptSession ::
  "FileTransferManager \<Rightarrow> string \<Rightarrow> instant \<Rightarrow> FileTransferManager \<times> (ft_error + int \<times> int)" where
  "AcceptSession ftm sessionID now =
     (case map_of (ftm_sessions ftm) sessionID of
        None \<Rightarrow> (ftm, Inl ErrSessionNotFound)
      | Some session \<Rightarrow>
          if Status session \<noteq> ''pending'' then (ftm, Inl ErrSessionNotPending)
          else (case allocatePort ftm of
                  (ftm1, Inl err) \<Rightarrow> (ftm1, Inl err)
                | (ftm1, Inr uploadPort) \<Rightarrow>
                    (case allocatePort ftm1 of
                       (ftm2, Inl err) \<Rightarrow> (releasePort ftm2 uploadPort, Inl err)
                     | (ftm2, Inr downloadPort) \<Rightarrow>
                         (ftm2\<lparr>ftm_sessions :=
                            AList.update sessionID
                              (session\<lparr>UploadPort := uploadPort, DownloadPort := downloadPort,
                                 Status := ''accepted'', ExpiresAt := now + 10 * 60\<rparr>)
                              (ftm_sessions ftm2)\<rparr>,
                          Inr (uploadPort, downloadPort)))))"

definition DeclineSession :: "FileTransferManager \<Rightarrow> string \<Rightarrow> FileTransferManager \<times> ft_error option" where
  "DeclineSession ftm sessionID =
     (case map_of (ftm_sessions ftm) sessionID of
        None \<Rightarrow> (ftm, Some ErrSessionNotFound)
      | Some session \<Rightarrow>
          (ftm\<lparr>ftm_sessions :=
             AList.update sessionID (session\<lparr>Status := ''declined''\<rparr>) (ftm_sessions ftm)\<rparr>,
           None))"

definition close_data_conn :: "Socket option \<Rightarrow> Socket option" where
  "close_data_conn c = (case c of None \<Rightarrow> None | Some sock \<Rightarrow> Some (sock\<lparr>closed := True\<rparr>))"

definition CancelSession :: "FileTransferManager \<Rightarrow> string \<Rightarrow> FileTransferManager \<times> ft_error option" where
  "CancelSession ftm sessionID =
     (case map_of (ftm_sessions ftm) sessionID of
        None \<Rightarrow> (ftm, Some ErrSessionNotFound)
      | Some session \<Rightarrow>
          (ftm\<lparr>ftm_sessions :=
             AList.update sessionID
               (session\<lparr>Status := ''cancelled'',
                  UploadConn := close_data_conn (UploadConn session),
                  DownloadConn := close_data_conn (DownloadConn session)\<rparr>)
               (ftm_sessions ftm)\<rparr>,
           None))"

definition GetSession :: "FileTransferManager \<Rightarrow> string \<Rightarrow> FileSession option" where
  "GetSession ftm sessionID = map_of (ftm_sessions ftm) sessionID"

text \<open>
  \<open>CleanExpired\<close>: one step of the loop over the sessions, and the loop. An expired session
  that is not completed is set to cancelled, loses its ports and leaves the map; the order of
  the visit does not matter.
\<close>

definition CleanExpired_step ::
  "instant \<Rightarrow> string \<times> FileSession \<Rightarrow> FileTransferManager \<Rightarrow> FileTransferManager" where
  "CleanExpired_step now entry ftm =
     (let session = snd entry
      in if now > ExpiresAt session \<and> Status session \<noteq> ''completed'' then
           (let ftm1 = (if UploadPort session > 0 then releasePort ftm (UploadPort session) else ftm);
                ftm2 = (if DownloadPort session > 0 then releasePort ftm1 (DownloadPort session) else ftm1)
            in ftm2\<lparr>ftm_sessions := AList.delete (fst entry) (ftm_sessions ftm2)\<rparr>)
         else ftm)"

definition CleanExpired :: "FileTransferManager \<Rightarrow> instant \<Rightarrow> FileTransferManager" where
  "CleanExpired ftm now = fold (CleanExpired_step now) (ftm_sessions ftm) ftm"

text \<open>
  The three ways the goroutine \<open>startProxy\<close> of an accepted session goes on: it gives up
  waiting for the two data connections (deadline or failed accept), it has both and marks the
  session as transferring, and the copy ends. It works on the session it was started with,
  found here by its ID.
\<close>

definition startProxy_abort :: "FileTransferManager \<Rightarrow> int \<Rightarrow> int \<Rightarrow> FileTransferManager" where
  "startProxy_abort ftm uploadPort downloadPort =
     releasePort (releasePort ftm uploadPort) downloadPort"

definition startProxy_connected :: "FileTransferManager \<Rightarrow> string \<Rightarrow> FileTransferManager" where
  "startProxy_connected ftm sessionID =
     (case map_of (ftm_sessions ftm) sessionID of
        None \<Rightarrow> ftm
      | Some session \<Rightarrow>
          ftm\<lparr>ftm_sessions :=
            AList.update sessionID
              (session\<lparr>UploadConn := Some \<lparr>closed = False, outbox = []\<rparr>,
                 DownloadConn := Some \<lparr>closed = False, outbox = []\<rparr>,
                 Status := ''transferring''\<rparr>)
              (ftm_sessions ftm)\<rparr>)"

definition startProxy_copy_done ::
  "FileTransferManager \<Rightarrow> string \<Rightarrow> int \<Rightarrow> int \<Rightarrow> bool \<Rightarrow> FileTransferManager" where
  "startProxy_copy_done ftm sessionID uploadPort downloadPort copy_ok =
     (let ftm1 = (case map_of (ftm_sessions ftm) sessionID of
                    None \<Rightarrow> ftm
                  | Some session \<Rightarrow>
                      ftm\<lparr>ftm_sessions :=
                        AList.update sessionID
                          (session\<lparr>UploadConn := close_data_conn (UploadConn session),
                             DownloadConn := close_data_conn (DownloadConn session),
                             Status := (if copy_ok then ''completed'' else ''error'')\<rparr>)
                          (ftm_sessions ftm)\<rparr>)
      in releasePort (releasePort ftm1 uploadPort) downloadPort)"

section \<open>The offline count in the words of the specification\<close>

text \<open>
  Following the specification, not the source: the number of messages from \<open>sndr\<close> to \<open>rcp\<close>
  whose timestamp \<open>t\<close> satisfies \<open>lastOffline < t \<le> lastOnline\<close>.
\<close>

definition spec_offline_count :: "DB \<Rightarrow> string \<Rightarrow> string \<Rightarrow> instant \<Rightarrow> instant \<Rightarrow> nat" where
  "spec_offline_count database rcp sndr lastOffline lastOnline =
     length (filter (\<lambda>m. sender m = sndr \<and> recipient m = rcp
                          \<and> lastOffline < timestamp m \<and> timestamp m \<le> lastOnline)
                    (messages database))"

section \<open>States used as concrete inputs\<close>

text \<open>
  A server with the registered users alice and bob, no contact rows and no messages, on which
  alice is authenticated on connection 1 and has been silent since instant 0.
\<close>

definition example_db :: DB where
  "example_db =
     \<lparr>users = [\<lparr>login = ''alice'', password = ''hash-a'', last_online = Some 0, last_offline = Some 0\<rparr>,
               \<lparr>login = ''bob'', password = ''hash-b'', last_online = Some 0, last_offline = Some 0\<rparr>],
      contacts = [], messages = [], failing = False\<rparr>"

definition example_server :: Server where
  "example_server =
     \<lparr>db = example_db,
      config = \<lparr>Port = 3215, ReadTimeout = 120, WriteTimeout = 30,
                 FilePortRangeStart = 35000, FilePortRangeEnd = 35999\<rparr>,
      sessions = [''alice'' \<mapsto> 1],
      heap = (\<lambda>a. \<lparr>Login = [], Conn = a, LastPing = 0\<rparr>)
               (1 := \<lparr>Login = ''alice'', Conn = 1, LastPing = 0\<rparr>),
      conns = (\<lambda>c. \<lparr>closed = False, outbox = []\<rparr>),
      trace = []\<rparr>"

text \<open>The same server with bob authenticated as well, on connection 2.\<close>

definition example_pair :: Server where
  "example_pair =
     example_server\<lparr>sessions := [''alice'' \<mapsto> 1, ''bob'' \<mapsto> 2],
                     heap := (heap example_server)(2 := \<lparr>Login = ''bob'', Conn = 2, LastPing = 0\<rparr>)\<rparr>"

text \<open>
  The same server with carol registered and six stored messages; alice was last offline at
  instant 2 and last online at instant 8.
\<close>

definition example_inbox :: Server where
  "example_inbox =
     example_server\<lparr>db :=
       \<lparr>users = [\<lparr>login = ''alice'', password = ''hash-a'', last_online = Some 8, last_offline = Some 2\<rparr>,
                 \<lparr>login = ''bob'', password = ''hash-b'', last_online = Some 0, last_offline = Some 0\<rparr>,
                 \<lparr>login = ''carol'', password = ''hash-c'', last_online = Some 0, last_offline = Some 0\<rparr>],
        contacts = [],
        messages =
          [\<lparr>sender = ''bob'', recipient = ''alice'', msg_text = ''one'', timestamp = 2, status = ''ackn''\<rparr>,
           \<lparr>sender = ''bob'', recipient = ''alice'', msg_text = ''two'', timestamp = 3, status = ''ackn''\<rparr>,
           \<lparr>sender = ''alice'', recipient = ''bob'', msg_text = ''three'', timestamp = 4, status = ''sent''\<rparr>,
           \<lparr>sender = ''carol'', recipient = ''alice'', msg_text = ''four'', timestamp = 5, status = ''sent''\<rparr>,
           \<lparr>sender = ''bob'', recipient = ''alice'', msg_text = ''five'', timestamp = 8, status = ''sent''\<rparr>,
           \<lparr>sender = ''bob'', recipient = ''alice'', msg_text = ''six'', timestamp = 9, status = ''sent''\<rparr>],
        failing = False\<rparr>\<rparr>"

text \<open>
  A manager over the two ports 35000 and 35001 with one pending transfer from alice to bob,
  and the same manager after bob has accepted at instant 10.
\<close>

definition example_ftm :: FileTransferManager where
  "example_ftm =
     fst (CreateSession (NewFileTransferManager 35000 35001)
            ''ab12cd34'' ''alice'' ''bob'' ''f.bin'' 1048576 ''sha256:00'' 0)"

definition example_ftm_accepted :: FileTransferManager where
  "example_ftm_accepted = fst (AcceptSession example_ftm ''ab12cd34'' 10)"

section \<open>Properties of the codec\<close>

lemma splitUnescaped_loop_nonempty: "splitUnescaped_loop d s parts cur esc \<noteq> []"
  by (induction s arbitrary: parts cur esc) auto

lemma chars_distinct:
  "PIPE \<noteq> BSLASH" "COMMA \<noteq> BSLASH" "LF \<noteq> BSLASH" "CR \<noteq> BSLASH"
  "PIPE \<noteq> COMMA" "PIPE \<noteq> LF" "PIPE \<noteq> CR" "COMMA \<noteq> LF" "COMMA \<noteq> CR" "LF \<noteq> CR"
  "CHR ''n'' \<noteq> BSLASH" "CHR ''r'' \<noteq> BSLASH" "CHR ''n'' \<noteq> PIPE" "CHR ''r'' \<noteq> PIPE"
  "CHR ''n'' \<noteq> COMMA" "CHR ''r'' \<noteq> COMMA" "CHR ''n'' \<noteq> CR" "CHR ''r'' \<noteq> CR"
  "CHR ''n'' \<noteq> LF" "CHR ''r'' \<noteq> LF"
  by (simp_all add: PIPE_def BSLASH_def COMMA_def LF_def CR_def)

lemma unescape_loop_Escape:
  "unescape_loop (Escape s) result False = result @ s"
proof (induction s arbitrary: result)
  case Nil
  show ?case by simp
next
  case (Cons r rest)
  show ?case
    using chars_distinct
    by (simp add: Escape_rune_def unescape_rune_def Cons.IH)
qed

lemma unescape_Escape: "unescape (Escape s) = s"
  by (simp add: unescape_def unescape_loop_Escape)

lemma split_loop_Escape:
  "splitUnescaped_loop PIPE (Escape f @ rest) parts cur False
     = splitUnescaped_loop PIPE rest parts (cur @ Escape f) False"
proof (induction f arbitrary: cur)
  case Nil
  show ?case by simp
next
  case (Cons r f)
  show ?case
    using chars_distinct
    by (simp add: Escape_rune_def Cons.IH)
qed

lemma split_loop_Join:
  "splitUnescaped_loop PIPE (Join (map Escape (f # fs)) [PIPE]) parts cur False
     = parts @ [cur @ Escape f] @ map Escape fs"
proof (induction fs arbitrary: f parts cur)
  case Nil
  show ?case using split_loop_Escape [of f "[]" parts cur] by simp
next
  case (Cons g gs)
  have "splitUnescaped_loop PIPE (Join (map Escape (f # g # gs)) [PIPE]) parts cur False
        = splitUnescaped_loop PIPE (PIPE # Join (map Escape (g # gs)) [PIPE]) parts (cur @ Escape f) False"
    using split_loop_Escape [of f "PIPE # Join (map Escape (g # gs)) [PIPE]" parts cur] by simp
  also have "\<dots> = splitUnescaped_loop PIPE (Join (map Escape (g # gs)) [PIPE]) (parts @ [cur @ Escape f]) [] False"
    using chars_distinct by simp
  also have "\<dots> = (parts @ [cur @ Escape f]) @ [[] @ Escape g] @ map Escape gs"
    by (rule Cons.IH)
  finally show ?case by simp
qed

lemma splitUnescaped_Join:
  "splitUnescaped (Join (map Escape (f # fs)) [PIPE]) PIPE = map Escape (f # fs)"
  using split_loop_Join [of f fs "[]" "[]"] by (simp add: splitUnescaped_def)

lemma CR_notin_Escape: "CR \<notin> set (Escape s)"
  using chars_distinct by (induction s) (auto simp: Escape_rune_def)

lemma CR_notin_Join: "CR \<notin> set (Join (map Escape fs) [PIPE])"
  using chars_distinct CR_notin_Escape by (induction fs rule: induct_list012) auto

lemma TrimSuffix_snoc: "TrimSuffix (s @ [c]) [c] = s"
  by (simp add: TrimSuffix_def)

lemma TrimSuffix_absent: "c \<notin> set s \<Longrightarrow> TrimSuffix s [c] = s"
proof (cases s rule: rev_cases)
  case Nil
  then show ?thesis by (simp add: TrimSuffix_def)
next
  case (snoc ys y)
  assume "c \<notin> set s"
  with snoc show ?thesis by (auto simp: TrimSuffix_def)
qed

lemma trim_packet_line:
  "TrimSuffix (TrimSuffix (packet_line t fs) [LF]) [CR] = Join (map Escape (t # fs)) [PIPE]"
  unfolding packet_line_def TrimSuffix_snoc
  by (rule TrimSuffix_absent) (rule CR_notin_Join)

lemma ParsePacket_packet_line:
  "ParsePacket (packet_line t fs) =
     Inr (case fs of
            [] \<Rightarrow> \<lparr>Type = t, Destination = [], Content = [], Fields = []\<rparr>
          | [c] \<Rightarrow> \<lparr>Type = t, Destination = [], Content = c, Fields = splitUnescaped c PIPE\<rparr>
          | d # c # _ \<Rightarrow> \<lparr>Type = t, Destination = d, Content = c, Fields = splitUnescaped c PIPE\<rparr>)"
proof -
  have parts: "splitUnescaped (TrimSuffix (TrimSuffix (packet_line t fs) [LF]) [CR]) PIPE
                 = map Escape (t # fs)"
    by (simp only: trim_packet_line splitUnescaped_Join)
  show ?thesis
  proof (cases fs)
    case Nil
    then show ?thesis using parts by (simp add: ParsePacket_def Let_def unescape_Escape)
  next
    case (Cons d ds)
    show ?thesis
    proof (cases ds)
      case Nil
      with Cons show ?thesis using parts by (simp add: ParsePacket_def Let_def unescape_Escape)
    next
      case (Cons c cs)
      with \<open>fs = d # ds\<close> show ?thesis
        using parts by (simp add: ParsePacket_def Let_def unescape_Escape)
    qed
  qed
qed

lemma ParsePacket_FormatPacket_full:
  "ParsePacket (FormatPacket t (x # d) (y # c))
     = Inr \<lparr>Type = t, Destination = x # d, Content = y # c, Fields = splitUnescaped (y # c) PIPE\<rparr>"
  using ParsePacket_packet_line [of t "[x # d, y # c]"]
  by (simp add: FormatPacket_def packet_line_def)

lemma ParsePacket_FormatPacket_simple:
  "ParsePacket (FormatPacket t [] (y # c))
     = Inr \<lparr>Type = t, Destination = [], Content = y # c, Fields = splitUnescaped (y # c) PIPE\<rparr>"
  using ParsePacket_packet_line [of t "[y # c]"]
  by (simp add: FormatPacket_def packet_line_def)

text \<open>
  What holds of the codec on well-formed UTF-8 text. The line that \<open>sendPacket\<close> builds
  (each string escaped on its own, joined by the pipe, ended by a line feed) splits at its
  unescaped pipes into parts that unescape to the original strings, and \<open>ParsePacket\<close>
  gives back a packet of one, two or three strings.
\<close>

lemma codec_primitives_roundtrip:
  "map unescape (splitUnescaped (TrimSuffix (TrimSuffix (packet_line t fs) [LF]) [CR]) PIPE) = t # fs
   \<and> ParsePacket (packet_line t [])
       = Inr \<lparr>Type = t, Destination = [], Content = [], Fields = []\<rparr>
   \<and> ParsePacket (packet_line t [c])
       = Inr \<lparr>Type = t, Destination = [], Content = c, Fields = splitUnescaped c PIPE\<rparr>
   \<and> ParsePacket (packet_line t [d, c])
       = Inr \<lparr>Type = t, Destination = d, Content = c, Fields = splitUnescaped c PIPE\<rparr>
   \<and> ParsePacket (FormatPacket t (x # d') (y # c'))
       = Inr \<lparr>Type = t, Destination = x # d', Content = y # c',
              Fields = splitUnescaped (y # c') PIPE\<rparr>
   \<and> ParsePacket (FormatPacket t [] (y # c'))
       = Inr \<lparr>Type = t, Destination = [], Content = y # c',
              Fields = splitUnescaped (y # c') PIPE\<rparr>"
proof -
  have "map unescape (map Escape (t # fs)) = t # fs"
    by (simp add: unescape_Escape comp_def)
  then have "map unescape (splitUnescaped (TrimSuffix (TrimSuffix (packet_line t fs) [LF]) [CR]) PIPE) = t # fs"
    by (simp only: trim_packet_line splitUnescaped_Join)
  then show ?thesis
    using ParsePacket_packet_line [of t "[]"] ParsePacket_packet_line [of t "[c]"]
      ParsePacket_packet_line [of t "[d, c]"]
      ParsePacket_FormatPacket_full [of t x d' y c'] ParsePacket_FormatPacket_simple [of t y c']
    by simp
qed

text \<open>
  C1 at a packet of five strings. The line that the client sends for a file offer,
  \<open>fsnd|bob|f.bin|1048576|sha256:00\<close>, is the encoding of its five strings and splits and
  unescapes to them, but \<open>ParsePacket\<close> returns only the type, the destination \<open>bob\<close> and
  the content \<open>f.bin\<close>: the size and the hash are lost, and the packet is the one decoded
  from \<open>fsnd|bob|f.bin\<close>. In the same way \<open>hist|user2@example.com|5|5\<close>, which the history
  handler reads as an offset and a limit in the content, arrives with the content \<open>5\<close> and
  the single field \<open>5\<close>.
\<close>

theorem ParsePacket_drops_later_fields:
  "packet_line ''fsnd'' [''bob'', ''f.bin'', ''1048576'', ''sha256:00'']
     = ''fsnd|bob|f.bin|1048576|sha256:00\<newline>''
   \<and> ParsePacket ''fsnd|bob|f.bin|1048576|sha256:00\<newline>''
     = Inr \<lparr>Type = ''fsnd'', Destination = ''bob'', Content = ''f.bin'', Fields = [''f.bin'']\<rparr>
   \<and> ParsePacket (packet_line ''fsnd'' [''bob'', ''f.bin''])
     = Inr \<lparr>Type = ''fsnd'', Destination = ''bob'', Content = ''f.bin'', Fields = [''f.bin'']\<rparr>
   \<and> map unescape (splitUnescaped ''fsnd|bob|f.bin|1048576|sha256:00'' PIPE)
     = [''fsnd'', ''bob'', ''f.bin'', ''1048576'', ''sha256:00'']
   \<and> ParsePacket ''hist|user2@example.com|5|5\<newline>''
     = Inr \<lparr>Type = ''hist'', Destination = ''user2@example.com'', Content = ''5'', Fields = [''5'']\<rparr>"
  by code_simp

text \<open>
  C9. Decoding never fails: \<open>splitUnescaped\<close> always yields at least one part, so
  \<open>ParsePacket\<close> returns a packet for every input, and the read loop always goes on to the
  dispatcher, never to the branch that answers \<open>fail|Invalid packet format\<close>.
\<close>

theorem ParsePacket_total:
  "splitUnescaped s delimiter \<noteq> []
   \<and> (\<exists>pkt. ParsePacket line = Inr pkt)
   \<and> handleLine handlePacket srv session conn line
       = handlePacket srv session (projr (ParsePacket (line @ [LF]))) conn"
proof -
  have ne: "splitUnescaped s' d \<noteq> []" for s' d
    by (simp add: splitUnescaped_def splitUnescaped_loop_nonempty)
  have ex: "\<exists>pkt. ParsePacket l = Inr pkt" for l
    using ne [of "TrimSuffix (TrimSuffix l [LF]) [CR]" PIPE]
    by (auto simp: ParsePacket_def Let_def)
  from ex [of "line @ [LF]"] have "handleLine handlePacket srv session conn line
       = handlePacket srv session (projr (ParsePacket (line @ [LF]))) conn"
    by (auto simp: handleLine_def)
  with ne ex show ?thesis by blast
qed

section \<open>Properties of the handlers\<close>

subsection \<open>Writes, and authentication on an authenticated session\<close>

lemma Write_fields [simp]:
  "db (Write s c d) = db s" "sessions (Write s c d) = sessions s" "heap (Write s c d) = heap s"
  "config (Write s c d) = config s"
  "trace (Write s c d) = trace s @ [ConnWrite c d]"
  by (simp_all add: Write_def)

lemma getSessionConn_Write [simp]: "getSessionConn (Write s c d) l = getSessionConn s l"
  by (simp add: getSessionConn_def getSession_def split: option.splits)

lemma line_ok_auth: "packet_line ''ok'' [''auth''] = ''ok|auth\<newline>''"
  by code_simp

lemma line_fail_auth: "packet_line ''fail'' [''auth'', ''Invalid credentials''] = ''fail|auth|Invalid credentials\<newline>''"
  by code_simp

text \<open>
  C10, as amended. On a session that is already authenticated, an \<open>auth\<close> request that
  carries a login and a password, both not empty and valid or not, is answered \<open>ok|auth\<close>;
  one that lacks either is answered \<open>fail|auth|Invalid credentials\<close>. In both cases the
  whole effect is that one line written to the requesting connection: the login of the
  session, the registry and the repository (so the stored \<open>last_online\<close>) are unchanged, and
  nothing is written to any other connection.
\<close>

theorem handleAuth_authenticated:
  assumes "Login (heap s session) \<noteq> []"
  shows "let s' = handleAuth compareHash fmt now s session pkt conn;
             complete = (Destination pkt \<noteq> [] \<and> Content pkt \<noteq> []
                         \<or> Destination pkt = [] \<and> 2 \<le> length (Fields pkt)
                           \<and> Fields pkt ! 0 \<noteq> [] \<and> Fields pkt ! 1 \<noteq> []);
             line = (if complete then ''ok|auth\<newline>'' else ''fail|auth|Invalid credentials\<newline>'')
         in s' = Write s conn line
            \<and> Login (heap s' session) = Login (heap s session) \<and> sessions s' = sessions s
            \<and> db s' = db s \<and> trace s' = trace s @ [ConnWrite conn line]"
proof -
  have ok: "sendOK s conn ''auth'' = Write s conn ''ok|auth\<newline>''"
    by (simp add: sendOK_def sendPacket_def line_ok_auth)
  have fail: "sendError s conn ''auth'' ''Invalid credentials'' = Write s conn ''fail|auth|Invalid credentials\<newline>''"
    by (simp add: sendError_def sendPacket_def line_fail_auth)
  show ?thesis
    using assms
    by (auto simp: handleAuth_def two_args_def ok fail Let_def simp del: One_nat_def)
qed

text \<open>The amended C10 at alice's session, with a wrong password for bob.\<close>

theorem handleAuth_authenticated_witness:
  "Login (heap example_server 1) \<noteq> []
   \<and> trace (handleAuth (\<lambda>h p. False) (\<lambda>t. []) 5 example_server 1
              \<lparr>Type = ''auth'', Destination = ''bob'', Content = ''wrong'', Fields = [''wrong'']\<rparr> 1)
     = [ConnWrite 1 ''ok|auth\<newline>'']"
  using handleAuth_authenticated [of example_server 1 "\<lambda>h p. False" "\<lambda>t. []" 5
      "\<lparr>Type = ''auth'', Destination = ''bob'', Content = ''wrong'', Fields = [''wrong'']\<rparr>" 1]
  by (simp add: example_server_def Let_def)

text \<open>
  C10 as stated fails: on alice's authenticated session the request \<open>auth|bob\<close>, which has
  no password, is answered \<open>fail|auth|Invalid credentials\<close>.
\<close>

theorem handleAuth_authenticated_counterexample:
  "Login (heap example_server 1) = ''alice''
   \<and> ParsePacket ''auth|bob'' = Inr \<lparr>Type = ''auth'', Destination = [], Content = ''bob'', Fields = [''bob'']\<rparr>
   \<and> outbox (conns (handleAuth (\<lambda>h p. h = p) (\<lambda>t. []) 5 example_server 1
                       \<lparr>Type = ''auth'', Destination = [], Content = ''bob'', Fields = [''bob'']\<rparr> 1) 1)
     = [''fail|auth|Invalid credentials\<newline>'']"
  by code_simp

subsection \<open>Message routing\<close>

lemma Write_closed [simp]: "closed (conns (Write s c d) c') = closed (conns s c')"
  by (simp add: Write_def)

lemma Write_outbox_open:
  "\<not> closed (conns s c) \<Longrightarrow> outbox (conns (Write s c d) c) = outbox (conns s c) @ [d]"
  by (simp add: Write_def)

lemma Write_outbox_closed:
  "closed (conns s c) \<Longrightarrow> outbox (conns (Write s c d) c) = outbox (conns s c)"
  by (simp add: Write_def)

lemma getSessionConn_same:
  "sessions s' = sessions s \<Longrightarrow> heap s' = heap s \<Longrightarrow> getSessionConn s' l = getSessionConn s l"
  by (simp add: getSessionConn_def getSession_def cong: option.case_cong)

lemma line_ok_msg: "packet_line ''ok'' [''msg''] = ''ok|msg\<newline>''"
  by code_simp

lemma line_fail_msg:
  "packet_line ''fail'' [''msg'', ''Recipient not found''] = ''fail|msg|Recipient not found\<newline>''"
  by code_simp

lemma UserExists_working:
  "\<not> failing database \<Longrightarrow> UserExists database l = Inr (l \<in> login ` set (users database))"
proof -
  assume "\<not> failing database"
  moreover have "(filter (\<lambda>u. login u = l) (users database) \<noteq> []) = (l \<in> login ` set (users database))"
    by (auto simp: filter_empty_conv)
  ultimately show ?thesis by (simp add: UserExists_def)
qed

text \<open>
  C4, as amended. For every \<open>msg\<close> request on an authenticated session with a recipient and
  a text that are not empty, and a repository that reports no error: if no user row has the
  recipient's login, the only effect is the reply \<open>fail|msg|Recipient not found\<close>, and the
  repository is unchanged; otherwise one row with status \<open>sent\<close> and the server's instant is
  appended, the trace shows it stored before the write to the recipient's connection (made
  only if the recipient is in the registry), and the last write is \<open>ok|msg\<close> to the
  originator, who receives it if its socket is open.
\<close>

theorem handleMessage_persist_then_forward:
  assumes "Login (heap s session) \<noteq> []" and "Destination pkt \<noteq> []" and "Content pkt \<noteq> []"
    and "\<not> failing (db s)"
  shows "let s' = handleMessage fmt now s session pkt conn;
             row = \<lparr>sender = Login (heap s session), recipient = Destination pkt,
                    msg_text = Content pkt, timestamp = now, status = ''sent''\<rparr>
         in if Destination pkt \<in> login ` set (users (db s))
            then messages (db s') = messages (db s) @ [row]
               \<and> trace s' = trace s @ [MessageSaved row]
                    @ (case getSessionConn s (Destination pkt) of
                         Some recipientConn \<Rightarrow>
                           [ConnWrite recipientConn
                              (''msg|'' @ Escape (Login (heap s session)) @ ''|''
                               @ Escape (Content pkt) @ ''|'' @ fmt now @ [LF])]
                       | None \<Rightarrow> [])
                    @ [ConnWrite conn ''ok|msg\<newline>'']
               \<and> (closed (conns s conn) \<or> last (outbox (conns s' conn)) = ''ok|msg\<newline>'')
            else s' = Write s conn ''fail|msg|Recipient not found\<newline>''
               \<and> db s' = db s"
proof (cases "Destination pkt \<in> login ` set (users (db s))")
  case False
  then show ?thesis
    using assms
    by (simp add: handleMessage_def UserExists_working sendError_def sendPacket_def line_fail_msg Let_def)
next
  case True
  define row where "row = \<lparr>sender = Login (heap s session), recipient = Destination pkt,
                    msg_text = Content pkt, timestamp = now, status = ''sent''\<rparr>"
  define s1 where "s1 = s\<lparr>db := (db s)\<lparr>messages := messages (db s) @ [row]\<rparr>,
                          trace := trace s @ [MessageSaved row]\<rparr>"
  define s2 where "s2 = (case getSessionConn s1 (Destination pkt) of
                           Some recipientConn \<Rightarrow>
                             Write s1 recipientConn
                               (''msg|'' @ Escape (Login (heap s session)) @ ''|''
                                @ Escape (Content pkt) @ ''|'' @ fmt now @ [LF])
                         | None \<Rightarrow> s1)"
  have hm: "handleMessage fmt now s session pkt conn = Write s2 conn ''ok|msg\<newline>''"
    using assms True
    by (simp add: handleMessage_def UserExists_working SaveMessage_def sendOK_def sendPacket_def
        line_ok_msg Let_def s2_def s1_def row_def split: option.splits)
  have g: "getSessionConn s1 l = getSessionConn s l" for l
    by (rule getSessionConn_same) (simp_all add: s1_def)
  have db2: "messages (db s2) = messages (db s) @ [row]"
    by (simp add: s2_def s1_def split: option.splits)
  have tr2: "trace s2 = trace s @ [MessageSaved row]
                    @ (case getSessionConn s (Destination pkt) of
                         Some recipientConn \<Rightarrow>
                           [ConnWrite recipientConn
                              (''msg|'' @ Escape (Login (heap s session)) @ ''|''
                               @ Escape (Content pkt) @ ''|'' @ fmt now @ [LF])]
                       | None \<Rightarrow> [])"
    unfolding s2_def g by (simp add: s1_def split: option.splits)
  have cl2: "closed (conns s2 conn) = closed (conns s conn)"
    by (simp add: s2_def s1_def split: option.splits)
  have out: "closed (conns s conn) \<or> last (outbox (conns (Write s2 conn ''ok|msg\<newline>'') conn)) = ''ok|msg\<newline>''"
    using cl2 by (cases "closed (conns s conn)") (simp_all add: Write_outbox_open)
  show ?thesis
    using True db2 tr2 out unfolding hm Let_def row_def [symmetric]
    by simp
qed

text \<open>
  The amended C4 at a message from alice to bob, who is registered and online: the row is
  stored, then the message is written to bob's connection, then the reply to alice's.
\<close>

theorem handleMessage_persist_then_forward_witness:
  "Login (heap example_pair 1) \<noteq> [] \<and> \<not> failing (db example_pair)
   \<and> ''bob'' \<in> login ` set (users (db example_pair))
   \<and> messages (db (handleMessage (\<lambda>t. ''1970-01-01T00:00:05Z'') 5 example_pair 1
        \<lparr>Type = ''msg'', Destination = ''bob'', Content = ''hello'', Fields = [''hello'']\<rparr> 1))
      = [\<lparr>sender = ''alice'', recipient = ''bob'', msg_text = ''hello'', timestamp = 5, status = ''sent''\<rparr>]
   \<and> trace (handleMessage (\<lambda>t. ''1970-01-01T00:00:05Z'') 5 example_pair 1
        \<lparr>Type = ''msg'', Destination = ''bob'', Content = ''hello'', Fields = [''hello'']\<rparr> 1)
      = [MessageSaved \<lparr>sender = ''alice'', recipient = ''bob'', msg_text = ''hello'', timestamp = 5, status = ''sent''\<rparr>,
         ConnWrite 2 ''msg|alice|hello|1970-01-01T00:00:05Z\<newline>'',
         ConnWrite 1 ''ok|msg\<newline>'']"
proof -
  have h: "Login (heap example_pair 1) \<noteq> []" "\<not> failing (db example_pair)"
    "''bob'' \<in> login ` set (users (db example_pair))"
    "getSessionConn example_pair ''bob'' = Some 2"
    "trace example_pair = []" "messages (db example_pair) = []"
    "Login (heap example_pair 1) = ''alice''"
    by (simp_all add: example_pair_def example_server_def example_db_def getSessionConn_def
        getSession_def)
  from handleMessage_persist_then_forward [of example_pair 1
      "\<lparr>Type = ''msg'', Destination = ''bob'', Content = ''hello'', Fields = [''hello'']\<rparr>"
      "\<lambda>t. ''1970-01-01T00:00:05Z''" 5 1]
  show ?thesis
    using h by (simp add: Let_def Escape_rune_def PIPE_def COMMA_def BSLASH_def LF_def CR_def)
qed

text \<open>
  C4 as stated fails: the request \<open>msg|hello\<close> has a text and a recipient that is not a
  registered user (it is empty), and the reply is \<open>fail|msg|Recipient required\<close>.
\<close>

theorem handleMessage_counterexample:
  "Login (heap example_server 1) = ''alice''
   \<and> ParsePacket ''msg|hello''
       = Inr \<lparr>Type = ''msg'', Destination = [], Content = ''hello'', Fields = [''hello'']\<rparr>
   \<and> outbox (conns (handleMessage (\<lambda>t. ''1970-01-01T00:00:05Z'') 5 example_server 1
                       \<lparr>Type = ''msg'', Destination = [], Content = ''hello'', Fields = [''hello'']\<rparr> 1) 1)
       = [''fail|msg|Recipient required\<newline>'']"
  by code_simp

subsection \<open>Acknowledgement\<close>

lemma send_fields [simp]:
  "db (sendPacket s c t fs) = db s" "heap (sendPacket s c t fs) = heap s"
  "sessions (sendPacket s c t fs) = sessions s"
  "db (sendOK s c op) = db s" "heap (sendOK s c op) = heap s" "sessions (sendOK s c op) = sessions s"
  "db (sendError s c op de) = db s" "heap (sendError s c op de) = heap s"
  "sessions (sendError s c op de) = sessions s"
  by (simp_all add: sendPacket_def sendOK_def sendError_def)

lemma MarkMessageAcknowledged_twice:
  assumes "MarkMessageAcknowledged d a b t = Inr d1"
  shows "MarkMessageAcknowledged d1 a b t = Inr d1"
proof -
  let ?f = "\<lambda>m. if sender m = a \<and> recipient m = b \<and> timestamp m = t
                 then m\<lparr>status := ''ackn''\<rparr> else m"
  from assms have nf: "\<not> failing d" and d1: "d1 = d\<lparr>messages := map ?f (messages d)\<rparr>"
    by (auto simp: MarkMessageAcknowledged_def split: if_splits)
  have "map ?f (map ?f (messages d)) = map ?f (messages d)"
    by (induction "messages d") auto
  then show ?thesis using nf by (simp add: MarkMessageAcknowledged_def d1)
qed

lemma MarkMessageAcknowledged_keeps_ackn:
  assumes "MarkMessageAcknowledged d a b t = Inr d1"
  shows "length (messages d1) = length (messages d)
         \<and> (\<forall>i < length (messages d). status (messages d ! i) = ''ackn''
               \<longrightarrow> status (messages d1 ! i) = ''ackn'')"
  using assms by (auto simp: MarkMessageAcknowledged_def split: if_splits)

lemma handleAck_db:
  "db (handleAck parseTime s session pkt conn) = db s
   \<or> (\<exists>a t. MarkMessageAcknowledged (db s) a (Login (heap s session)) t
              = Inr (db (handleAck parseTime s session pkt conn)))"
  by (auto simp: handleAck_def Let_def split: option.splits sum.splits prod.splits)

lemma handleAck_heap: "heap (handleAck parseTime s session pkt conn) = heap s"
  by (auto simp: handleAck_def Let_def split: option.splits sum.splits prod.splits)

lemma handleAck_twice:
  "db (handleAck parseTime (handleAck parseTime s session pkt conn) session pkt conn)
     = db (handleAck parseTime s session pkt conn)"
proof (cases "\<exists>a ts t d1. Login (heap s session) \<noteq> [] \<and> two_args pkt = Some (a, ts) \<and> a \<noteq> [] \<and> ts \<noteq> []
        \<and> parseTime ts = Some t \<and> MarkMessageAcknowledged (db s) a (Login (heap s session)) t = Inr d1")
  case True
  then obtain a ts t d1 where h: "Login (heap s session) \<noteq> []" "two_args pkt = Some (a, ts)"
      "a \<noteq> []" "ts \<noteq> []" "parseTime ts = Some t"
      "MarkMessageAcknowledged (db s) a (Login (heap s session)) t = Inr d1"
    by blast
  have d1: "db (handleAck parseTime s session pkt conn) = d1"
    using h by (simp add: handleAck_def Let_def split: option.splits)
  have "db (handleAck parseTime s' session pkt conn) = d1"
    if "heap s' = heap s" "db s' = d1" for s'
    using h that MarkMessageAcknowledged_twice [OF h(6)]
    by (simp add: handleAck_def Let_def split: option.splits)
  from this [OF handleAck_heap d1] d1 show ?thesis by simp
next
  case False
  then have "db (handleAck parseTime s' session pkt conn) = db s'" if "heap s' = heap s" "failing (db s') = failing (db s)" for s'
    using that
    by (auto simp: handleAck_def Let_def MarkMessageAcknowledged_def split: option.splits sum.splits prod.splits if_splits)
  note this [OF handleAck_heap]
  moreover have "db (handleAck parseTime s session pkt conn) = db s"
    using False
    by (auto simp: handleAck_def Let_def  split: option.splits sum.splits prod.splits if_splits)
  ultimately show ?thesis by simp
qed

text \<open>
  C6. Handling the same \<open>ack\<close> request a second time leaves the repository, hence every
  message row, as the first left it; an \<open>ack\<close> request keeps the number of rows and never
  takes a row out of status \<open>ackn\<close>. The same holds of \<open>MarkMessageAcknowledged\<close> for
  every triple of sender, recipient and timestamp, on a repository that reports no error.
\<close>

theorem ack_idempotent:
  "db (handleAck parseTime (handleAck parseTime s session pkt conn) session pkt conn)
     = db (handleAck parseTime s session pkt conn)
   \<and> length (messages (db (handleAck parseTime s session pkt conn))) = length (messages (db s))
   \<and> (\<forall>i < length (messages (db s)).
         status (messages (db s) ! i) = ''ackn''
         \<longrightarrow> status (messages (db (handleAck parseTime s session pkt conn)) ! i) = ''ackn'')
   \<and> (\<not> failing d \<longrightarrow>
        (\<exists>d1. MarkMessageAcknowledged d a b t = Inr d1
              \<and> MarkMessageAcknowledged d1 a b t = Inr d1
              \<and> length (messages d1) = length (messages d)
              \<and> (\<forall>i < length (messages d).
                    status (messages d ! i) = ''ackn'' \<longrightarrow> status (messages d1 ! i) = ''ackn'')))"
proof (intro conjI)
  show "db (handleAck parseTime (handleAck parseTime s session pkt conn) session pkt conn)
     = db (handleAck parseTime s session pkt conn)"
    by (rule handleAck_twice)
next
  show "length (messages (db (handleAck parseTime s session pkt conn))) = length (messages (db s))"
    using handleAck_db [of parseTime s session pkt conn] MarkMessageAcknowledged_keeps_ackn
    by metis
next
  show "\<forall>i < length (messages (db s)).
         status (messages (db s) ! i) = ''ackn''
         \<longrightarrow> status (messages (db (handleAck parseTime s session pkt conn)) ! i) = ''ackn''"
    using handleAck_db [of parseTime s session pkt conn] MarkMessageAcknowledged_keeps_ackn
    by metis
next
  show "\<not> failing d \<longrightarrow>
        (\<exists>d1. MarkMessageAcknowledged d a b t = Inr d1
              \<and> MarkMessageAcknowledged d1 a b t = Inr d1
              \<and> length (messages d1) = length (messages d)
              \<and> (\<forall>i < length (messages d).
                    status (messages d ! i) = ''ackn'' \<longrightarrow> status (messages d1 ! i) = ''ackn''))"
  proof
    assume "\<not> failing d"
    then obtain d1 where d1: "MarkMessageAcknowledged d a b t = Inr d1"
      by (simp add: MarkMessageAcknowledged_def)
    show "\<exists>d1. MarkMessageAcknowledged d a b t = Inr d1
              \<and> MarkMessageAcknowledged d1 a b t = Inr d1
              \<and> length (messages d1) = length (messages d)
              \<and> (\<forall>i < length (messages d).
                    status (messages d ! i) = ''ackn'' \<longrightarrow> status (messages d1 ! i) = ''ackn'')"
      using d1 MarkMessageAcknowledged_twice [OF d1] MarkMessageAcknowledged_keeps_ackn [OF d1]
      by blast
  qed
qed

text \<open>C6 at alice's acknowledgement of the message that bob sent her at instant 8.\<close>

theorem ack_idempotent_witness:
  "\<not> failing (db example_inbox)
   \<and> (1::nat) < length (messages (db example_inbox))
   \<and> status (messages (db example_inbox) ! 1) = ''ackn''
   \<and> status (messages (db (handleAck (\<lambda>str. if str = ''1970-01-01T00:00:08Z'' then Some 8 else None)
          example_inbox 1
          \<lparr>Type = ''ack'', Destination = ''bob'', Content = ''1970-01-01T00:00:08Z'',
             Fields = [''1970-01-01T00:00:08Z'']\<rparr> 1)) ! 1) = ''ackn''
   \<and> map status (messages (db (handleAck (\<lambda>str. if str = ''1970-01-01T00:00:08Z'' then Some 8 else None)
          example_inbox 1
          \<lparr>Type = ''ack'', Destination = ''bob'', Content = ''1970-01-01T00:00:08Z'',
             Fields = [''1970-01-01T00:00:08Z'']\<rparr> 1)))
       = [''ackn'', ''ackn'', ''sent'', ''sent'', ''ackn'', ''sent'']
   \<and> db (handleAck (\<lambda>str. if str = ''1970-01-01T00:00:08Z'' then Some 8 else None)
          (handleAck (\<lambda>str. if str = ''1970-01-01T00:00:08Z'' then Some 8 else None)
             example_inbox 1
             \<lparr>Type = ''ack'', Destination = ''bob'', Content = ''1970-01-01T00:00:08Z'',
                Fields = [''1970-01-01T00:00:08Z'']\<rparr> 1)
          1
          \<lparr>Type = ''ack'', Destination = ''bob'', Content = ''1970-01-01T00:00:08Z'',
             Fields = [''1970-01-01T00:00:08Z'']\<rparr> 1)
     = db (handleAck (\<lambda>str. if str = ''1970-01-01T00:00:08Z'' then Some 8 else None)
             example_inbox 1
             \<lparr>Type = ''ack'', Destination = ''bob'', Content = ''1970-01-01T00:00:08Z'',
                Fields = [''1970-01-01T00:00:08Z'']\<rparr> 1)"
proof -
  let ?P = "\<lambda>str. if str = ''1970-01-01T00:00:08Z'' then Some (8::int) else None"
  let ?pkt = "\<lparr>Type = ''ack'', Destination = ''bob'', Content = ''1970-01-01T00:00:08Z'',
                Fields = [''1970-01-01T00:00:08Z'']\<rparr>"
  have h: "\<not> failing (db example_inbox)" "(1::nat) < length (messages (db example_inbox))"
    "status (messages (db example_inbox) ! 1) = ''ackn''"
    by (simp_all add: example_inbox_def)
  have e: "map status (messages (db (handleAck ?P example_inbox 1 ?pkt 1)))
       = [''ackn'', ''ackn'', ''sent'', ''sent'', ''ackn'', ''sent'']"
    by code_simp
  from ack_idempotent [of ?P example_inbox 1 ?pkt 1 "db example_inbox" "''bob''" "''alice''" 8]
  show ?thesis using h e by simp
qed

subsection \<open>Offline counts\<close>

lemma fold_store_rows:
  "fold (\<lambda>(s, n) counts. counts(s \<mapsto> n)) (map (\<lambda>s. (s, f s)) xs) m
     = (\<lambda>k. if k \<in> set xs then Some (f k) else m k)"
  by (induction xs arbitrary: m) (auto simp: fun_eq_iff)

lemma count_in_window:
  "length (filter (\<lambda>m. sender m = k) (offline_rows database rcp lo on))
     = spec_offline_count database rcp k lo on"
  unfolding offline_rows_def spec_offline_count_def filter_filter
  by (rule arg_cong [where f = length], rule filter_cong) auto

lemma sender_in_window:
  "(k \<in> set (map sender (offline_rows database rcp lo on)))
     = (0 < spec_offline_count database rcp k lo on)"
proof -
  have "(k \<in> set (map sender rows)) = (0 < length (filter (\<lambda>m. sender m = k) rows))" for rows :: "message_row list"
    by (induction rows) auto
  then show ?thesis by (simp only: count_in_window)
qed

lemma GetOfflineMessageCounts_spec:
  assumes "\<not> failing database" and "find (\<lambda>u. login u = l) (users database) = Some u"
    and "last_offline u = Some lo" and "last_online u = Some on"
  shows "GetOfflineMessageCounts database l =
           Inr (\<lambda>sndr. if spec_offline_count database l sndr lo on = 0 then None
                        else Some (spec_offline_count database l sndr lo on))"
proof -
  have "fold (\<lambda>(s, n) counts. counts(s \<mapsto> n)) (group_by_sender (offline_rows database l lo on)) Map.empty
        = (\<lambda>sndr. if spec_offline_count database l sndr lo on = 0 then None
                        else Some (spec_offline_count database l sndr lo on))"
    unfolding group_by_sender_def fold_store_rows
    using sender_in_window [of _ database l lo on]
    by (auto simp: fun_eq_iff count_in_window)
  then show ?thesis
    using assms by (simp add: GetOfflineMessageCounts_def offline_window_def)
qed

lemma concat_map_present:
  assumes "\<forall>k \<in> set ks. counts k = Some (f k)"
  shows "concat (map (\<lambda>k. case counts k of None \<Rightarrow> [] | Some n \<Rightarrow> [g k n]) ks) = map (\<lambda>k. g k (f k)) ks"
  using assms by (induction ks) auto

text \<open>
  C5. On an authenticated session whose user has stored instants \<open>lo = last_offline\<close> and
  \<open>on = last_online\<close>, with a repository that reports no error, the map that \<open>offmsg\<close> reads
  holds for each sender the number of messages to this user with \<open>lo < t \<le> on\<close> and has no
  entry for a sender without such a message, and the reply lists exactly these numbers, one
  item \<open>sender|count\<close> for each key in the order of the visit.
\<close>

theorem offmsg_counts:
  assumes "Login (heap s session) = l" and "l \<noteq> []" and "\<not> failing (db s)"
    and "find (\<lambda>u. login u = l) (users (db s)) = Some u"
    and "last_offline u = Some lo" and "last_online u = Some on"
    and "distinct range_order"
    and "\<forall>counts. GetOfflineMessageCounts (db s) l = Inr counts \<longrightarrow> set range_order = dom counts"
  shows "GetOfflineMessageCounts (db s) l =
           Inr (\<lambda>sndr. if spec_offline_count (db s) l sndr lo on = 0 then None
                        else Some (spec_offline_count (db s) l sndr lo on))
       \<and> set range_order = {sndr. 0 < spec_offline_count (db s) l sndr lo on}
       \<and> handleOfflineMessages range_order s session conn =
           Write s conn (''offmsg|''
             @ Join (map (\<lambda>sndr. Escape sndr @ ''|'' @ Itoa (spec_offline_count (db s) l sndr lo on))
                         range_order) '','' @ [LF])"
proof -
  let ?counts = "\<lambda>sndr. if spec_offline_count (db s) l sndr lo on = 0 then None
                        else Some (spec_offline_count (db s) l sndr lo on)"
  have g: "GetOfflineMessageCounts (db s) l = Inr ?counts"
    using assms(3-6) by (rule GetOfflineMessageCounts_spec)
  with assms(8) have keys: "set range_order = dom ?counts" by blast
  then have keys': "set range_order = {sndr. 0 < spec_offline_count (db s) l sndr lo on}"
    by (auto simp: dom_def)
  have present: "\<forall>k \<in> set range_order. ?counts k = Some (spec_offline_count (db s) l k lo on)"
    using keys' by auto
  have "handleOfflineMessages range_order s session conn =
           Write s conn (''offmsg|''
             @ Join (map (\<lambda>sndr. Escape sndr @ ''|'' @ Itoa (spec_offline_count (db s) l sndr lo on))
                         range_order) '','' @ [LF])"
    using assms(1,2) concat_map_present [OF present, of "\<lambda>k n. Escape k @ ''|'' @ Itoa n"]
    by (simp add: handleOfflineMessages_def g sendPacketRaw_def Escape_rune_def PIPE_def
        COMMA_def BSLASH_def LF_def CR_def Let_def)
  with g keys' show ?thesis by blast
qed

lemma example_inbox_counts:
  "GetOfflineMessageCounts (db example_inbox) ''alice'' = Inr [''carol'' \<mapsto> Suc 0, ''bob'' \<mapsto> Suc (Suc 0)]"
  by (simp add: GetOfflineMessageCounts_def example_inbox_def offline_window_def offline_rows_def
      group_by_sender_def)

text \<open>C5 at alice's stored messages: two from bob and one from carol are in the window.\<close>

theorem offmsg_counts_witness:
  "Login (heap example_inbox 1) = ''alice'' \<and> \<not> failing (db example_inbox)
   \<and> find (\<lambda>u. login u = ''alice'') (users (db example_inbox))
       = Some \<lparr>login = ''alice'', password = ''hash-a'', last_online = Some 8, last_offline = Some 2\<rparr>
   \<and> distinct [''carol'', ''bob'']
   \<and> GetOfflineMessageCounts (db example_inbox) ''alice''
       = Inr [''carol'' \<mapsto> Suc 0, ''bob'' \<mapsto> Suc (Suc 0)]
   \<and> {sndr. 0 < spec_offline_count (db example_inbox) ''alice'' sndr 2 8} = {''carol'', ''bob''}
   \<and> spec_offline_count (db example_inbox) ''alice'' ''bob'' 2 8 = 2
   \<and> outbox (conns (handleOfflineMessages [''carol'', ''bob''] example_inbox 1 1) 1)
       = [''offmsg|carol|1,bob|2\<newline>'']"
proof -
  let ?u = "\<lparr>login = ''alice'', password = ''hash-a'', last_online = Some 8, last_offline = Some 2\<rparr>"
  have h1: "Login (heap example_inbox 1) = ''alice''"
    by (simp add: example_inbox_def example_server_def)
  have h2: "''alice'' \<noteq> []" by simp
  have h3: "\<not> failing (db example_inbox)" by (simp add: example_inbox_def)
  have h4: "find (\<lambda>u. login u = ''alice'') (users (db example_inbox)) = Some ?u"
    by (simp add: example_inbox_def)
  have h5: "last_offline ?u = Some 2" and h6: "last_online ?u = Some 8" by simp_all
  have h7: "distinct [''carol'', ''bob'']" by simp
  have h8: "\<forall>counts. GetOfflineMessageCounts (db example_inbox) ''alice'' = Inr counts
         \<longrightarrow> set [''carol'', ''bob''] = dom counts"
    unfolding example_inbox_counts by auto
  have c1: "spec_offline_count (db example_inbox) ''alice'' ''carol'' 2 8 = 1"
    and c2: "spec_offline_count (db example_inbox) ''alice'' ''bob'' 2 8 = 2"
    by (simp_all add: spec_offline_count_def example_inbox_def)
  have i1: "Itoa 1 = ''1''" and i2: "Itoa 2 = ''2''" by (simp_all add: Itoa.simps)
  have op: "\<not> closed (conns example_inbox 1)" and ob: "outbox (conns example_inbox 1) = []"
    by (simp_all add: example_inbox_def example_server_def)
  from offmsg_counts [OF h1 h2 h3 h4 h5 h6 h7 h8, of 1]
  show ?thesis
    using h1 h3 h4 h7 example_inbox_counts c1 c2
    by (simp add: i1 i2 Write_outbox_open [OF op] ob Escape_rune_def PIPE_def COMMA_def
        BSLASH_def LF_def CR_def del: One_nat_def)
qed

subsection \<open>Renaming and deleting a contact\<close>

text \<open>
  On an authenticated session and a repository that reports no error, a well-formed request
  that names a contact without a row is answered \<open>Internal error\<close>.
\<close>

lemma handleRenameContact_missing_row:
  assumes "Login (heap s session) \<noteq> []" and "\<not> failing (db s)"
    and "Destination pkt \<noteq> []" and "Fields pkt = [nk]" and "nk \<noteq> []"
    and "\<forall>c \<in> set (contacts (db s)). \<not> (owner c = Login (heap s session) \<and> contact c = Destination pkt)"
  shows "handleRenameContact s session pkt conn = sendError s conn ''ren'' ''Internal error''"
proof -
  have "filter (\<lambda>c. owner c = Login (heap s session) \<and> contact c = Destination pkt) (contacts (db s)) = []"
    using assms(6) by (simp add: filter_empty_conv)
  then have "UpdateContactNick (db s) (Login (heap s session)) (Destination pkt) nk = Inl SqlErrNoRows"
    using assms(2) by (simp add: UpdateContactNick_def)
  then show ?thesis
    using assms(1,3,4,5) by (simp add: handleRenameContact_def)
qed

lemma handleDeleteContact_missing_row:
  assumes "Login (heap s session) \<noteq> []" and "\<not> failing (db s)"
    and "Destination pkt \<noteq> []"
    and "\<forall>c \<in> set (contacts (db s)). \<not> (owner c = Login (heap s session) \<and> contact c = Destination pkt)"
  shows "handleDeleteContact s session pkt conn = sendError s conn ''del'' ''Internal error''"
proof -
  have "filter (\<lambda>c. owner c = Login (heap s session) \<and> contact c = Destination pkt) (contacts (db s)) = []"
    using assms(4) by (simp add: filter_empty_conv)
  then have "DeleteContact (db s) (Login (heap s session)) (Destination pkt) = Inl SqlErrNoRows"
    using assms(2) by (simp add: DeleteContact_def)
  then show ?thesis
    using assms(1,3) by (simp add: handleDeleteContact_def Let_def)
qed

text \<open>
  C2 at a missing row. Alice is authenticated and has no contact row for bob: the repository
  returns \<open>sql.ErrNoRows\<close>, which is not the value \<open>db.ErrNoRows\<close> the handlers compare
  with, and the replies to \<open>ren|bob|Bobby\<close> and \<open>del|bob\<close> are
  \<open>fail|ren|Internal error\<close> and \<open>fail|del|Internal error\<close>.
\<close>

theorem rename_delete_missing_row:
  "ParsePacket ''ren|bob|Bobby''
     = Inr \<lparr>Type = ''ren'', Destination = ''bob'', Content = ''Bobby'', Fields = [''Bobby'']\<rparr>
   \<and> UpdateContactNick (db example_server) ''alice'' ''bob'' ''Bobby'' = Inl SqlErrNoRows
   \<and> outbox (conns (handleRenameContact example_server 1
                       \<lparr>Type = ''ren'', Destination = ''bob'', Content = ''Bobby'', Fields = [''Bobby'']\<rparr> 1) 1)
       = [''fail|ren|Internal error\<newline>'']
   \<and> ParsePacket ''del|bob''
     = Inr \<lparr>Type = ''del'', Destination = [], Content = ''bob'', Fields = [''bob'']\<rparr>
   \<and> DeleteContact (db example_server) ''alice'' ''bob'' = Inl SqlErrNoRows
   \<and> outbox (conns (handleDeleteContact example_server 1
                       \<lparr>Type = ''del'', Destination = [], Content = ''bob'', Fields = [''bob'']\<rparr> 1) 1)
       = [''fail|del|Internal error\<newline>'']"
  by code_simp

text \<open>When the row exists the replies are \<open>ok|ren\<close> and \<open>ok|del\<close>.\<close>

lemma rename_delete_existing_row:
  "outbox (conns (handleRenameContact
       (example_server\<lparr>db := example_db\<lparr>contacts := [\<lparr>owner = ''alice'', contact = ''bob'', nick = ''Bob''\<rparr>]\<rparr>\<rparr>) 1
       \<lparr>Type = ''ren'', Destination = ''bob'', Content = ''Bobby'', Fields = [''Bobby'']\<rparr> 1) 1)
     = [''ok|ren\<newline>'']
   \<and> outbox (conns (handleDeleteContact
       (example_server\<lparr>db := example_db\<lparr>contacts := [\<lparr>owner = ''alice'', contact = ''bob'', nick = ''Bob''\<rparr>]\<rparr>\<rparr>) 1
       \<lparr>Type = ''del'', Destination = [], Content = ''bob'', Fields = [''bob'']\<rparr> 1) 1)
     = [''ok|del\<newline>'']"
  by code_simp

subsection \<open>Idle timeout\<close>

text \<open>
  Nothing reaches a closed socket. Whenever a tick of the ticker finds the session idle, it
  closes the socket, and whatever the end of the connection then writes, the bye packet
  included, is not delivered.
\<close>

lemma Write_on_closed: "closed (conns s c) \<Longrightarrow> conns (Write s c' d) c = conns s c"
  by (auto simp: Write_def)

lemma sendPacket_on_closed: "closed (conns s c) \<Longrightarrow> conns (sendPacket s c' t fs) c = conns s c"
  by (simp add: sendPacket_def Write_on_closed)

lemma notify_loop_on_closed:
  "closed (conns s c) \<Longrightarrow> conns (notify_loop t l ts s cs) c = conns s c"
proof (induction cs arbitrary: s)
  case Nil
  show ?case by simp
next
  case (Cons x xs)
  show ?case
  proof (cases "getSessionConn s (contact x)")
    case None
    with Cons show ?thesis by simp
  next
    case (Some c')
    have "closed (conns (sendPacket s c' t [l, ts]) c)"
      using Cons.prems by (simp add: sendPacket_on_closed)
    from Cons.IH [OF this] Some Cons.prems show ?thesis
      by (simp add: sendPacket_on_closed)
  qed
qed

lemma handleConnection_exit_on_closed:
  assumes "closed (conns s conn)"
  shows "outbox (conns (handleConnection_exit fmt now s loc session conn) conn) = outbox (conns s conn)"
proof -
  define l where "l = Login (heap s session)"
  define s2 where "s2 = removeSession s l"
  define s3 where "s3 = (case UpdateLastOffline (db s2) l now of Inl err \<Rightarrow> s2 | Inr db' \<Rightarrow> s2\<lparr>db := db'\<rparr>)"
  define s1 where "s1 = (if l \<noteq> [] then notifyContactsOffline fmt s3 l now else s)"
  have c3: "conns s3 = conns s"
    by (simp add: s3_def s2_def removeSession_def split: sum.splits)
  have "conns (notifyContactsOffline fmt s3 l now) conn = conns s3 conn"
    using assms c3 by (simp add: notifyContactsOffline_def notify_loop_on_closed split: sum.splits)
  then have c1: "conns s1 conn = conns s conn"
    by (simp add: s1_def c3)
  then have cl1: "closed (conns s1 conn)" using assms by simp
  have "conns (sendBye s1 conn r d) conn = conns s1 conn" for r d
    using cl1 by (simp add: sendBye_def sendPacket_on_closed)
  then have "outbox (conns (Close (if shouldSendBye loc then sendBye s1 conn (byeReason loc) (byeDetails loc) else s1) conn) conn)
           = outbox (conns s conn)"
    using c1 by (simp add: Close_def)
  moreover have "handleConnection_exit fmt now s loc session conn
      = Close (if shouldSendBye loc then sendBye s1 conn (byeReason loc) (byeDetails loc) else s1) conn"
    unfolding handleConnection_exit_def Let_def s1_def s3_def s2_def l_def by (rule refl)
  ultimately show ?thesis by simp
qed

lemma timeout_bye_never_delivered:
  assumes "ticker_tick now s loc session conn = (s1, loc1, True)"
  shows "shouldSendBye loc1 \<and> byeReason loc1 = ''timeout''
         \<and> outbox (conns (handleConnection_exit fmt now' s1 loc1 session conn) conn)
             = outbox (conns s conn)"
proof -
  from assms have s1: "s1 = Close s conn"
    and loc1: "loc1 = loc\<lparr>shouldSendBye := True, byeReason := ''timeout'', byeDetails := []\<rparr>"
    by (auto simp: ticker_tick_def split: if_splits option.splits)
  have "closed (conns s1 conn)" and "outbox (conns s1 conn) = outbox (conns s conn)"
    by (simp_all add: s1 Close_def)
  with handleConnection_exit_on_closed [of s1 conn fmt now' loc1 session] loc1
  show ?thesis by simp
qed

text \<open>
  C3 at a session that has been silent for longer than the read timeout of 120 seconds. The
  tick at instant 121 sets the flag and the reason \<open>timeout\<close> and closes the socket; the
  read loop then leaves, the session is removed, and the deferred function writes
  \<open>bye|timeout\<close> to the socket that is already closed: the write is attempted, and the
  client is sent nothing.
\<close>

theorem idle_timeout_bye_not_delivered:
  "(case ticker_tick 121 example_server \<lparr>shouldSendBye = False, byeReason = [], byeDetails = []\<rparr> 1 1 of
      (s1, loc1, stopped) \<Rightarrow>
        stopped \<and> shouldSendBye loc1 \<and> byeReason loc1 = ''timeout'' \<and> byeDetails loc1 = []
        \<and> closed (conns s1 1)
        \<and> (let s2 = handleConnection_exit (\<lambda>t. ''1970-01-01T00:02:01Z'') 121 s1 loc1 1 1
           in trace s2 = [ConnWrite 1 ''bye|timeout\<newline>'']
              \<and> outbox (conns s2 1) = []
              \<and> closed (conns s2 1)
              \<and> sessions s2 ''alice'' = None))"
  by code_simp

text \<open>
  A tick at the instant the read timeout is reached does not fire, and the read that ends at
  its deadline then renews \<open>LastPing\<close>, after which a later tick does not fire either.
\<close>

lemma silent_session_kept_alive:
  "ticker_tick 120 example_server \<lparr>shouldSendBye = False, byeReason = [], byeDetails = []\<rparr> 1 1
     = (example_server, \<lparr>shouldSendBye = False, byeReason = [], byeDetails = []\<rparr>, False)
   \<and> LastPing (heap (read_deadline 120 example_server 1) 1) = 120
   \<and> snd (snd (ticker_tick 240 (read_deadline 120 example_server 1)
                  \<lparr>shouldSendBye = False, byeReason = [], byeDetails = []\<rparr> 1 1)) = False"
  by (simp add: ticker_tick_def read_deadline_def example_server_def)

subsection \<open>File-transfer sessions and ports\<close>

text \<open>
  \<open>DeclineSession\<close> and \<open>CancelSession\<close> set the status of any session they find, whatever
  its status was, and leave the set of used ports as it is.
\<close>

lemma DeclineSession_any_status:
  "map_of (ftm_sessions ftm) sessionID = Some session \<Longrightarrow>
     snd (DeclineSession ftm sessionID) = None
     \<and> GetSession (fst (DeclineSession ftm sessionID)) sessionID = Some (session\<lparr>Status := ''declined''\<rparr>)
     \<and> usedPorts (fst (DeclineSession ftm sessionID)) = usedPorts ftm"
  by (simp add: DeclineSession_def GetSession_def update_conv')

lemma CancelSession_any_status:
  "map_of (ftm_sessions ftm) sessionID = Some session \<Longrightarrow>
     snd (CancelSession ftm sessionID) = None
     \<and> map_option Status (GetSession (fst (CancelSession ftm sessionID)) sessionID) = Some ''cancelled''
     \<and> usedPorts (fst (CancelSession ftm sessionID)) = usedPorts ftm"
  by (simp add: CancelSession_def GetSession_def update_conv')

text \<open>
  C7 at a cancelled transfer. The accepted session holds the ports 35000 and 35001, the whole
  range; \<open>CancelSession\<close> makes it cancelled and releases neither port, so accepting another
  pending session fails with \<open>no available ports\<close>.
\<close>

theorem cancel_keeps_ports:
  "GetSession example_ftm_accepted ''ab12cd34''
     = Some \<lparr>ID = ''ab12cd34'', Sender = ''alice'', Recipient = ''bob'', Filename = ''f.bin'',
             Size = 1048576, Hash = ''sha256:00'', UploadPort = 35000, DownloadPort = 35001,
             UploadConn = None, DownloadConn = None, Status = ''accepted'',
             CreatedAt = 0, ExpiresAt = 610\<rparr>
   \<and> map_option Status (GetSession (fst (CancelSession example_ftm_accepted ''ab12cd34'')) ''ab12cd34'')
       = Some ''cancelled''
   \<and> usedPorts (fst (CancelSession example_ftm_accepted ''ab12cd34'')) = {35000, 35001}
   \<and> snd (AcceptSession
            (fst (CreateSession (fst (CancelSession example_ftm_accepted ''ab12cd34''))
                    ''0000ffff'' ''carol'' ''dave'' ''g.bin'' 1 ''sha256:11'' 20))
            ''0000ffff'' 30)
       = Inl ErrNoAvailablePorts"
  by code_simp

text \<open>
  Ports released twice: the proxy of the first session gives up at its deadline and releases
  its ports, a second session is accepted on them, the sweep releases the ports of the first
  session again, and a third session is accepted on the ports the second still holds.
\<close>

lemma double_release_shares_port:
  "(let ftm1 = startProxy_abort example_ftm_accepted 35000 35001;
        ftm2 = fst (CreateSession ftm1 ''0000ffff'' ''carol'' ''dave'' ''g.bin'' 1 ''sha256:11'' 611);
        ftm3 = fst (AcceptSession ftm2 ''0000ffff'' 615);
        ftm4 = CleanExpired ftm3 660;
        ftm5 = fst (CreateSession ftm4 ''1111eeee'' ''erin'' ''frank'' ''h.bin'' 1 ''sha256:22'' 661);
        ftm6 = fst (AcceptSession ftm5 ''1111eeee'' 670)
    in map (\<lambda>(k, v). (k, Status v, UploadPort v, DownloadPort v)) (ftm_sessions ftm6)
         = [(''0000ffff'', ''accepted'', 35000, 35001), (''1111eeee'', ''accepted'', 35000, 35001)])"
  by code_simp

text \<open>
  C8 at a completed transfer: \<open>DeclineSession\<close> reports no error and sets the status to
  declined, \<open>CancelSession\<close> sets it to cancelled, while \<open>AcceptSession\<close> refuses a session
  that is not pending.
\<close>

theorem terminal_status_overwritten:
  "(let done = startProxy_copy_done (startProxy_connected example_ftm_accepted ''ab12cd34'')
                 ''ab12cd34'' 35000 35001 True
    in map_option Status (GetSession done ''ab12cd34'') = Some ''completed''
       \<and> snd (DeclineSession done ''ab12cd34'') = None
       \<and> map_option Status (GetSession (fst (DeclineSession done ''ab12cd34'')) ''ab12cd34'')
           = Some ''declined''
       \<and> map_option Status (GetSession (fst (CancelSession done ''ab12cd34'')) ''ab12cd34'')
           = Some ''cancelled''
       \<and> snd (AcceptSession done ''ab12cd34'' 700) = Inl ErrSessionNotPending)"
  by code_simp

text \<open>
  What holds of \<open>allocatePort\<close>: the port it returns lies in the range, was free, is the
  lowest free port, and is marked used; it fails exactly when every port of the range is in
  use.
\<close>

lemma allocatePort_scan_Some:
  "allocatePort_scan used port portEnd = Some q \<Longrightarrow>
     port \<le> q \<and> q \<le> portEnd \<and> q \<notin> used \<and> (\<forall>r. port \<le> r \<and> r < q \<longrightarrow> r \<in> used)"
proof (induction used port portEnd rule: allocatePort_scan.induct)
  case (1 used port portEnd)
  show ?case
  proof (cases "port \<le> portEnd \<and> port \<in> used")
    case True
    with "1.prems" have "allocatePort_scan used (port + 1) portEnd = Some q"
      by (simp add: allocatePort_scan.simps [of used port])
    with "1.IH" True have "port + 1 \<le> q \<and> q \<le> portEnd \<and> q \<notin> used
        \<and> (\<forall>r. port + 1 \<le> r \<and> r < q \<longrightarrow> r \<in> used)"
      by blast
    with True show ?thesis
      by (metis add.commute add1_zle_eq order_le_less zle_add1_eq_le zless_add1_eq)
  next
    case False
    with "1.prems" show ?thesis
      by (auto simp: allocatePort_scan.simps [of used port] split: if_splits)
  qed
qed

lemma allocatePort_scan_None:
  "(allocatePort_scan used port portEnd = None) = (\<forall>r. port \<le> r \<and> r \<le> portEnd \<longrightarrow> r \<in> used)"
proof (induction used port portEnd rule: allocatePort_scan.induct)
  case (1 used port portEnd)
  show ?case
  proof (cases "port \<le> portEnd \<and> port \<in> used")
    case True
    then have "(allocatePort_scan used port portEnd = None)
               = (allocatePort_scan used (port + 1) portEnd = None)"
      by (simp add: allocatePort_scan.simps [of used port])
    also have "\<dots> = (\<forall>r. port + 1 \<le> r \<and> r \<le> portEnd \<longrightarrow> r \<in> used)"
      using "1.IH" True by blast
    also have "\<dots> = (\<forall>r. port \<le> r \<and> r \<le> portEnd \<longrightarrow> r \<in> used)"
      using True by (metis add1_zle_eq order_le_less)
    finally show ?thesis .
  next
    case False
    then show ?thesis
      by (auto simp: allocatePort_scan.simps [of used port])
  qed
qed

lemma allocatePort_in_range:
  assumes "allocatePort ftm = (ftm', Inr port)"
  shows "portRangeStart ftm \<le> port \<and> port \<le> portRangeEnd ftm \<and> port \<notin> usedPorts ftm
         \<and> usedPorts ftm' = insert port (usedPorts ftm)
         \<and> (\<forall>r. portRangeStart ftm \<le> r \<and> r < port \<longrightarrow> r \<in> usedPorts ftm)"
  using assms allocatePort_scan_Some [of "usedPorts ftm" "portRangeStart ftm" "portRangeEnd ftm" port]
  by (auto simp: allocatePort_def split: option.splits)

lemma allocatePort_fails_iff_exhausted:
  "(snd (allocatePort ftm) = Inl ErrNoAvailablePorts)
     = (\<forall>r. portRangeStart ftm \<le> r \<and> r \<le> portRangeEnd ftm \<longrightarrow> r \<in> usedPorts ftm)"
  using allocatePort_scan_None [of "usedPorts ftm" "portRangeStart ftm" "portRangeEnd ftm"]
  by (auto simp: allocatePort_def split: option.splits)

end
